theory Spec2Isabelle
  imports Complex_Main
begin

section \<open>Wire messages as the client reads and builds them\<close>

text \<open>
  The generated protobuf module is an external collaborator. Only the fields and enum
  values that \<^verbatim>\<open>api.py\<close> touches are modelled; an enum value the client
  has no branch for is carried by the \<open>OTHER\<close> constructor. Byte strings, tensors and
  decoded pixel arrays are opaque payloads (a byte string is a list of 8-bit characters).
  Python floats are modelled by \<^typ>\<open>real\<close>, Python integers by \<^typ>\<open>int\<close>. Log output
  is not modelled.
\<close>

type_synonym bytes = string
type_synonym tensor = "nat list"

datatype artifact_type =
    ARTIFACT_IMAGE | ARTIFACT_VIDEO | ARTIFACT_TEXT | ARTIFACT_CLASSIFICATIONS
  | ARTIFACT_MASK | ARTIFACT_TENSOR | ARTIFACT_DEPTH | ARTIFACT_OTHER nat

datatype action = ACTION_OBFUSCATE | ACTION_OTHER nat

record classifier_concept =
  concept :: string
  threshold :: "real option"

record classifier_category =
  category_name :: string
  concepts :: "classifier_concept list"

record classifier_parameters =
  realized_action :: action
  exceeds :: "classifier_category list"

record artifact =
  art_type :: artifact_type
  art_mime :: string
  art_uuid :: string
  art_binary :: bytes
  art_text :: string
  art_tensor :: tensor
  art_classifier :: classifier_parameters

text \<open>A prompt is a weighted text or an embedded artifact (with its \<open>init\<close> flag).\<close>

datatype prompt = TextPrompt string real | ArtifactPrompt bool artifact

record schedule_parameters =
  sched_start :: "real option"
  sched_end :: "real option"

record sampler_parameters =
  cfg_scale :: real
  init_noise_scale :: real

record step_parameter =
  scaled_step :: real
  sampler :: "sampler_parameters option"
  schedule :: "schedule_parameters option"
  guidance :: "string option"

record image_parameters =
  height :: nat
  width :: nat
  seed :: "int list"
  samples :: nat
  steps :: nat
  diffusion :: nat
  masked_area_init :: nat
  parameters :: "step_parameter list"

datatype transform_parameters =
    ColorAdjust nat | DepthCalc nat | Resample nat | CameraPose nat

datatype asset_action = ASSET_GET | ASSET_PUT

datatype asset_use = ASSET_USE_PROJECT | ASSET_USE_INPUT | ASSET_USE_OTHER nat

record asset_parameters =
  asset_act :: asset_action
  asset_project_id :: string
  asset_use_of :: asset_use

record request =
  engine_id :: string
  requested_type :: "artifact_type option"
  prompts :: "prompt list"
  image :: "image_parameters option"
  transform :: "transform_parameters option"
  asset :: "asset_parameters option"
  extras :: "(string \<times> string) list option"

datatype stage_action = STAGE_ACTION_PASS | STAGE_ACTION_RETURN

record on_status =
  status_action :: "stage_action list"
  status_target :: "string option"

record stage =
  stage_id :: string
  stage_request :: request
  stage_on_status :: "on_status list"

record chain_request =
  request_id :: string
  stages :: "stage list"

datatype any_request = Request request | ChainRequest chain_request

text \<open>One streamed answer carries a list of artifacts; a response is the stream.\<close>

type_synonym response = "artifact list list"

datatype status_code = RESOURCE_EXHAUSTED | UNAVAILABLE | STATUS_OTHER nat

text \<open>
  A \<^verbatim>\<open>grpc.RpcError\<close>. \<open>rpc_code = None\<close> is an error object without a
  \<^verbatim>\<open>code\<close> attribute.
\<close>

record rpc_error =
  rpc_code :: "status_code option"
  rpc_details :: string

datatype exn =
    ClassifierException classifier_parameters
  | OutOfCreditsException string
  | RpcError rpc_error
  | AssertionError
  | UnboundLocalError
  | ValueError string
  | KeyError string
  | IndexError
  | TypeError
  | AttributeError
  | OSError string
  | FileNotFoundError string
  | JSONDecodeError
  | Exception string

section \<open>The remote stub, the endpoints and the session context\<close>

text \<open>
  The stub is the remote service seen from the client: a call consumes the service's
  state \<open>'s\<close> and either raises an RPC error or yields the response stream.
\<close>

record 's stub =
  Generate :: "request \<Rightarrow> 's \<Rightarrow> (rpc_error + response) \<times> 's"
  ChainGenerate :: "chain_request \<Rightarrow> 's \<Rightarrow> (rpc_error + response) \<times> 's"

text \<open>The project service stub; only its \<^verbatim>\<open>Delete\<close> call is used below.\<close>

record 's project_stub =
  Delete :: "string \<Rightarrow> 's \<Rightarrow> (rpc_error + unit) \<times> 's"

record 's endpoint =
  ep_stub :: "'s stub"
  ep_engine_id :: string

record 's api_context =
  ctx_stub :: "'s stub"
  proj_stub :: "'s project_stub option"
  debug_no_chains :: bool
  max_retries :: int
  retry_delay :: real
  retry_obfuscation :: bool
  retry_schedule_offset :: real

definition asset_endpoint :: "'s api_context \<Rightarrow> 's endpoint" where
  "asset_endpoint c = \<lparr>ep_stub = ctx_stub c, ep_engine_id = ''asset-service''\<rparr>"

definition generate_endpoint :: "'s api_context \<Rightarrow> 's endpoint" where
  "generate_endpoint c = \<lparr>ep_stub = ctx_stub c, ep_engine_id = ''stable-diffusion-v1-5''\<rparr>"

definition transform_endpoint :: "'s api_context \<Rightarrow> 's endpoint" where
  "transform_endpoint c = \<lparr>ep_stub = ctx_stub c, ep_engine_id = ''transform-server-v1''\<rparr>"

text \<open>
  What a run leaves behind outside its return value: the service's state, and the
  chronological record of every stub call (with what it gave back) and of every
  \<^verbatim>\<open>time.sleep\<close>.
\<close>

datatype event =
    Call any_request "rpc_error + response"
  | Sleep real
  | ProjectDelete string "rpc_error + unit"

record 's remote =
  server :: 's
  events :: "event list"

section \<open>Artifact decoder\<close>

datatype decoded =
    Classifier classifier_parameters
  | Picture bytes
  | Tensor tensor
  | Text string
  | Binary bytes

type_synonym results = "artifact_type \<rightharpoonup> decoded list"

text \<open>
  The body of the inner loop of \<^verbatim>\<open>_process_response\<close>: the key is created
  with an empty list first, then the decoded value is appended when the kind is known.
  \<open>Picture b\<close> stands for \<^verbatim>\<open>cv2.imdecode\<close> of the bytes \<open>b\<close>.
\<close>

definition add_artifact :: "results \<Rightarrow> artifact \<Rightarrow> results" where
  "add_artifact res a =
     (let t = art_type a;
          cur = (case res t of None \<Rightarrow> [] | Some l \<Rightarrow> l)
      in if t = ARTIFACT_CLASSIFICATIONS then res(t \<mapsto> cur @ [Classifier (art_classifier a)])
         else if t = ARTIFACT_DEPTH \<or> t = ARTIFACT_IMAGE \<or> t = ARTIFACT_MASK
           then res(t \<mapsto> cur @ [Picture (art_binary a)])
         else if t = ARTIFACT_TENSOR then res(t \<mapsto> cur @ [Tensor (art_tensor a)])
         else if t = ARTIFACT_TEXT then res(t \<mapsto> cur @ [Text (art_text a)])
         else if t = ARTIFACT_VIDEO then res(t \<mapsto> cur @ [Binary (art_binary a)])
         else res(t \<mapsto> cur))"

definition process_response :: "response \<Rightarrow> results" where
  "process_response resp = foldl add_artifact Map.empty (concat resp)"

fun obfuscating :: "decoded \<Rightarrow> bool" where
  "obfuscating (Classifier cl) = (realized_action cl = ACTION_OBFUSCATE)"
| "obfuscating _ = False"

text \<open>
  The classifier check of \<^verbatim>\<open>_run_request\<close>: the first classification result
  whose realized action is OBFUSCATE, if any.
\<close>

definition obfuscation :: "results \<Rightarrow> classifier_parameters option" where
  "obfuscation res =
     (case res ARTIFACT_CLASSIFICATIONS of
        None \<Rightarrow> None
      | Some ds \<Rightarrow> (case find obfuscating ds of
                      Some (Classifier cl) \<Rightarrow> Some cl
                    | _ \<Rightarrow> None))"

section \<open>Retry policy and request orchestrator\<close>

definition shift_start :: "real \<Rightarrow> schedule_parameters \<Rightarrow> schedule_parameters" where
  "shift_start off s =
     (case sched_start s of
        None \<Rightarrow> s
      | Some x \<Rightarrow> s\<lparr>sched_start := Some (max 0 (min 1 (x + off)))\<rparr>)"

text \<open>
  The seeds are a repeated \<^verbatim>\<open>uint32\<close> field (\<^verbatim>\<open>_build_image_params\<close> draws
  them below 4294967295): assigning a value outside the range raises a
  \<^verbatim>\<open>ValueError\<close> and leaves the field as it was.
\<close>

definition uint32_max :: int where
  "uint32_max = 4294967295"

definition uint32_value :: "int \<Rightarrow> bool" where
  "uint32_value v \<longleftrightarrow> 0 \<le> v \<and> v \<le> uint32_max"

text \<open>
  \<^verbatim>\<open>_adjust_request_for_retry\<close> on the image parameters of a request: every seed
  is incremented; when \<open>attempt > 0\<close> and the first step parameter has a schedule with
  a start, the start is shifted and clamped.
\<close>

definition adjust_image :: "'s api_context \<Rightarrow> image_parameters \<Rightarrow> nat \<Rightarrow> exn + image_parameters" where
  "adjust_image c ip attempt =
     (if \<not> list_all uint32_value (map (\<lambda>s. s + 1) (seed ip))
      then Inl (ValueError ''Value out of range'')
      else
        Inr (let ip1 = ip\<lparr>seed := map (\<lambda>s. s + 1) (seed ip)\<rparr>
             in if attempt > 0 then
                  (case parameters ip1 of
                     [] \<Rightarrow> ip1
                   | p0 # ps \<Rightarrow>
                       (case schedule p0 of
                          None \<Rightarrow> ip1
                        | Some s \<Rightarrow>
                            ip1\<lparr>parameters :=
                                  p0\<lparr>schedule :=
                                       Some (shift_start (retry_schedule_offset c) s)\<rparr> # ps\<rparr>))
                else ip1))"

text \<open>The orchestrator calls it only on a request whose image field is present.\<close>

definition adjust_request_for_retry :: "'s api_context \<Rightarrow> request \<Rightarrow> nat \<Rightarrow> exn + request" where
  "adjust_request_for_retry c r attempt =
     (case image r of
        None \<Rightarrow> Inr r
      | Some ip \<Rightarrow>
          (case adjust_image c ip attempt of
             Inl e \<Rightarrow> Inl e
           | Inr ip1 \<Rightarrow> Inr (r\<lparr>image := Some ip1\<rparr>)))"

text \<open>
  The loop over the stages of a chain: the stages are adjusted in place one after the
  other, so an exception leaves the earlier ones adjusted.
\<close>

fun adjust_stages :: "'s api_context \<Rightarrow> nat \<Rightarrow> stage list \<Rightarrow> exn option \<times> stage list" where
  "adjust_stages c attempt [] = (None, [])"
| "adjust_stages c attempt (st # rest) =
     (if image (stage_request st) \<noteq> None then
        (case adjust_request_for_retry c (stage_request st) attempt of
           Inl e \<Rightarrow> (Some e, st # rest)
         | Inr r1 \<Rightarrow>
             (case adjust_stages c attempt rest of
                (err, rest1) \<Rightarrow> (err, st\<lparr>stage_request := r1\<rparr> # rest1)))
      else (case adjust_stages c attempt rest of (err, rest1) \<Rightarrow> (err, st # rest1)))"

text \<open>What one pass through the \<^verbatim>\<open>try\<close> block ends with.\<close>

datatype attempt_outcome =
    Done results
  | Obfuscated classifier_parameters results
  | Failed rpc_error
  | Asserted

definition dispatch ::
  "any_request \<Rightarrow> (rpc_error + response) \<times> 's \<Rightarrow> 's remote \<Rightarrow> attempt_outcome \<times> 's remote" where
  "dispatch rq out w =
     (let w1 = w\<lparr>server := snd out, events := events w @ [Call rq (fst out)]\<rparr>
      in case fst out of
           Inl e \<Rightarrow> (Failed e, w1)
         | Inr resp \<Rightarrow>
             (let res = process_response resp
              in case obfuscation res of
                   Some cl \<Rightarrow> (Obfuscated cl res, w1)
                 | None \<Rightarrow> (Done res, w1)))"

definition attempt_once :: "'s endpoint \<Rightarrow> any_request \<Rightarrow> 's remote \<Rightarrow> attempt_outcome \<times> 's remote" where
  "attempt_once ep rq w =
     (case rq of
        Request r \<Rightarrow>
          if ep_engine_id ep \<noteq> engine_id r then (Asserted, w)
          else dispatch rq (Generate (ep_stub ep) r (server w)) w
      | ChainRequest ch \<Rightarrow> dispatch rq (ChainGenerate (ep_stub ep) ch (server w)) w)"

definition py_range :: "int \<Rightarrow> nat list" where
  "py_range n = [0..<nat n]"

text \<open>
  The \<^verbatim>\<open>for attempt in range(...)\<close> loop of \<^verbatim>\<open>_run_request\<close>, over the
  attempts still to come. The request is mutated in place, so it is returned with the
  result. \<open>res\<close> is the local variable \<^verbatim>\<open>results\<close>, unbound until an attempt
  has decoded a response. An exception raised inside a handler (by the adjustment, or by
  \<^verbatim>\<open>time.sleep\<close> on a negative delay) leaves the loop.
\<close>

fun run_attempts ::
  "'s api_context \<Rightarrow> 's endpoint \<Rightarrow> nat list \<Rightarrow> any_request \<Rightarrow> results option \<Rightarrow> 's remote
     \<Rightarrow> (exn + results) \<times> any_request \<times> 's remote" where
  "run_attempts c ep [] rq res w =
     ((case res of None \<Rightarrow> Inl UnboundLocalError | Some r \<Rightarrow> Inr r), rq, w)"
| "run_attempts c ep (attempt # rest) rq res w =
     (case attempt_once ep rq w of
        (Asserted, w1) \<Rightarrow> (Inl AssertionError, rq, w1)
      | (Done r, w1) \<Rightarrow> (Inr r, rq, w1)
      | (Obfuscated cl r, w1) \<Rightarrow>
          if int attempt = max_retries c \<or> \<not> retry_obfuscation c
          then (Inl (ClassifierException cl), rq, w1)
          else (case rq of
                  Request rq1 \<Rightarrow>
                    if image rq1 \<noteq> None
                    then (case adjust_request_for_retry c rq1 attempt of
                            Inl e \<Rightarrow> (Inl e, rq, w1)
                          | Inr rq2 \<Rightarrow> run_attempts c ep rest (Request rq2) (Some r) w1)
                    else (Inl (ClassifierException cl), rq, w1)
                | ChainRequest ch \<Rightarrow>
                    (case adjust_stages c attempt (stages ch) of
                       (Some e, sts) \<Rightarrow> (Inl e, ChainRequest (ch\<lparr>stages := sts\<rparr>), w1)
                     | (None, sts) \<Rightarrow>
                         run_attempts c ep rest (ChainRequest (ch\<lparr>stages := sts\<rparr>))
                           (Some r) w1))
      | (Failed e, w1) \<Rightarrow>
          if rpc_code e = Some RESOURCE_EXHAUSTED
          then (Inl (OutOfCreditsException (rpc_details e)), rq, w1)
          else if int attempt = max_retries c then (Inl (RpcError e), rq, w1)
          else if retry_delay c * 2 ^ attempt < 0
          then (Inl (ValueError ''sleep length must be non-negative''), rq, w1)
          else run_attempts c ep rest rq res
                 (w1\<lparr>events := events w1 @ [Sleep (retry_delay c * 2 ^ attempt)]\<rparr>))"

definition run_request ::
  "'s api_context \<Rightarrow> 's endpoint \<Rightarrow> any_request \<Rightarrow> 's remote
     \<Rightarrow> (exn + results) \<times> any_request \<times> 's remote" where
  "run_request c ep rq w = run_attempts c ep (py_range (max_retries c + 1)) rq None w"

section \<open>Projects, the metadata index and the storage backend contract\<close>

text \<open>
  A picture is represented by its PNG encoding and project settings by their JSON text;
  the codecs are external.
\<close>

type_synonym picture = bytes
type_synonym settings = string

record project =
  proj_id :: string
  proj_title :: string
  proj_file_id :: string

text \<open>
  The metadata index maps a project id to a dictionary whose keys are asset ids (possibly
  \<^verbatim>\<open>None\<close>) and role keys such as \<^verbatim>\<open>"project_file_id"\<close>. An asset id maps to
  its metadata, a role key to an asset id.
\<close>

record asset_meta =
  mime_type :: string
  filename :: "string option"

datatype index_entry = AssetEntry asset_meta | KeyEntry "string option"

type_synonym project_index = "string option \<rightharpoonup> index_entry"
type_synonym metadata_index = "string \<rightharpoonup> project_index"

text \<open>
  The \<^verbatim>\<open>StorageBackend\<close> contract, for the operations the project aggregate fans out:
  two flags and the methods, each acting on the state \<open>'w\<close> the backends live in.
\<close>

record 'w storage_backend =
  primary :: bool
  primary_fs :: bool
  delete_project :: "string \<Rightarrow> 'w \<Rightarrow> (exn + unit) \<times> 'w"
  get_project_settings :: "project \<Rightarrow> index_entry \<Rightarrow> 'w \<Rightarrow> (exn + settings) \<times> 'w"
  get_image_asset :: "project \<Rightarrow> string \<Rightarrow> asset_use \<Rightarrow> 'w \<Rightarrow> (exn + picture) \<times> 'w"
  put_image_asset ::
    "project \<Rightarrow> picture \<Rightarrow> asset_use \<Rightarrow> string option \<Rightarrow> 'w \<Rightarrow> (exn + string) \<times> 'w"
  get_video_asset :: "project \<Rightarrow> string \<Rightarrow> asset_use \<Rightarrow> 'w \<Rightarrow> (exn + bytes) \<times> 'w"
  put_video_asset :: "project \<Rightarrow> string \<Rightarrow> string option \<Rightarrow> 'w \<Rightarrow> (exn + string) \<times> 'w"

text \<open>
  The class-level state of \<^verbatim>\<open>Project\<close>: the in-memory index and the contents of
  \<^verbatim>\<open>metadata_index.json\<close> (\<open>None\<close> while the file does not exist), next to the
  state of the backends. The registered backends are a parameter of every operation.
\<close>

record 'w session =
  backing :: 'w
  metadata_index :: metadata_index
  index_file :: "metadata_index option"

definition save_metadata_index :: "'w session \<Rightarrow> 'w session" where
  "save_metadata_index ss = ss\<lparr>index_file := Some (metadata_index ss)\<rparr>"

definition add_asset_metadata ::
  "string \<Rightarrow> string option \<Rightarrow> string \<Rightarrow> string option \<Rightarrow> string option \<Rightarrow> 'w session
     \<Rightarrow> 'w session" where
  "add_asset_metadata project_id asset_id mime fname project_key ss =
     (let sub0 = (case metadata_index ss project_id of None \<Rightarrow> Map.empty | Some m \<Rightarrow> m);
          sub1 = sub0(asset_id \<mapsto> AssetEntry \<lparr>mime_type = mime, filename = fname\<rparr>);
          sub2 = (case project_key of
                    None \<Rightarrow> sub1
                  | Some k \<Rightarrow> sub1(Some k \<mapsto> KeyEntry asset_id))
      in save_metadata_index (ss\<lparr>metadata_index := (metadata_index ss)(project_id \<mapsto> sub2)\<rparr>))"

definition delete_project_metadata :: "string \<Rightarrow> 'w session \<Rightarrow> 'w session" where
  "delete_project_metadata project_id ss =
     ss\<lparr>metadata_index := (metadata_index ss)(project_id := None)\<rparr>"

text \<open>\<^verbatim>\<open>s.rsplit(sep, 1)\<close> for a one-character separator.\<close>

definition rsplit1 :: "char \<Rightarrow> string \<Rightarrow> string list" where
  "rsplit1 sep s =
     (if sep \<in> set s
      then [rev (tl (dropWhile (\<lambda>x. x \<noteq> sep) (rev s))), rev (takeWhile (\<lambda>x. x \<noteq> sep) (rev s))]
      else [s])"

definition derived_asset_id :: "string \<Rightarrow> string" where
  "derived_asset_id result =
     (let rsplit_res = rsplit1 CHR ''/'' result
      in if length rsplit_res > 1 then rsplit_res ! 1 else rsplit_res ! 0)"

text \<open>
  The loop shared by \<^verbatim>\<open>Project.put_image_asset\<close> and
  \<^verbatim>\<open>Project.put_video_asset\<close>: every backend in registration order, each given the
  asset id known so far; an exception leaves the loop.
\<close>

fun fan_out_put ::
  "('w storage_backend \<Rightarrow> string option \<Rightarrow> 'w \<Rightarrow> (exn + string) \<times> 'w)
     \<Rightarrow> 'w storage_backend list \<Rightarrow> string list \<Rightarrow> string option \<Rightarrow> string option \<Rightarrow> 'w
     \<Rightarrow> (exn + string list \<times> string option \<times> string option) \<times> 'w" where
  "fan_out_put put [] results asset_id fname w = (Inr (results, asset_id, fname), w)"
| "fan_out_put put (backend # rest) results asset_id fname w =
     (case put backend asset_id w of
        (Inl e, w1) \<Rightarrow> (Inl e, w1)
      | (Inr result, w1) \<Rightarrow>
          fan_out_put put rest
            (if primary backend then results @ [derived_asset_id result] else results)
            (if primary backend then Some (derived_asset_id result) else asset_id)
            (if primary_fs backend then Some result else fname)
            w1)"

definition project_put_image_asset ::
  "'w storage_backend list \<Rightarrow> project \<Rightarrow> picture \<Rightarrow> asset_use \<Rightarrow> 'w session
     \<Rightarrow> (exn + string list) \<times> 'w session" where
  "project_put_image_asset backends proj img use ss =
     (case fan_out_put (\<lambda>backend asset_id. put_image_asset backend proj img use asset_id)
             backends [] None None (backing ss) of
        (Inl e, w1) \<Rightarrow> (Inl e, ss\<lparr>backing := w1\<rparr>)
      | (Inr (results, asset_id, fname), w1) \<Rightarrow>
          (Inr results,
           add_asset_metadata (proj_id proj) asset_id ''image/png'' fname None
             (ss\<lparr>backing := w1\<rparr>)))"

definition project_put_video_asset ::
  "'w storage_backend list \<Rightarrow> project \<Rightarrow> string \<Rightarrow> 'w session
     \<Rightarrow> (exn + string list) \<times> 'w session" where
  "project_put_video_asset backends proj video_path ss =
     (case fan_out_put (\<lambda>backend asset_id. put_video_asset backend proj video_path asset_id)
             backends [] None None (backing ss) of
        (Inl e, w1) \<Rightarrow> (Inl e, ss\<lparr>backing := w1\<rparr>)
      | (Inr (results, asset_id, fname), w1) \<Rightarrow>
          (Inr results,
           add_asset_metadata (proj_id proj) asset_id ''video/mp4'' fname None
             (ss\<lparr>backing := w1\<rparr>)))"

text \<open>A backend call made on behalf of the session.\<close>

definition on_backing :: "('w \<Rightarrow> 'a \<times> 'w) \<Rightarrow> 'w session \<Rightarrow> 'a \<times> 'w session" where
  "on_backing f ss = (case f (backing ss) of (r, w1) \<Rightarrow> (r, ss\<lparr>backing := w1\<rparr>))"

fun project_get_settings ::
  "'w storage_backend list \<Rightarrow> project \<Rightarrow> 'w session \<Rightarrow> (exn + settings) \<times> 'w session" where
  "project_get_settings [] proj ss =
     (Inl (Exception (''Failed to load project file for '' @ proj_id proj)), ss)"
| "project_get_settings (backend # rest) proj ss =
     (if primary backend then
        (case metadata_index ss (proj_id proj) of
           None \<Rightarrow> (Inl (KeyError (proj_id proj)), ss)
         | Some sub \<Rightarrow>
             (case sub (Some ''project_file_id'') of
                None \<Rightarrow> (Inl (KeyError ''project_file_id''), ss)
              | Some entry \<Rightarrow> on_backing (get_project_settings backend proj entry) ss))
      else project_get_settings rest proj ss)"

fun project_get_image_asset ::
  "'w storage_backend list \<Rightarrow> project \<Rightarrow> string \<Rightarrow> asset_use \<Rightarrow> 'w session
     \<Rightarrow> (exn + picture) \<times> 'w session" where
  "project_get_image_asset [] proj asset_id use ss =
     (Inl (Exception (''Failed to load image asset '' @ asset_id)), ss)"
| "project_get_image_asset (backend # rest) proj asset_id use ss =
     (if primary backend then on_backing (get_image_asset backend proj asset_id use) ss
      else project_get_image_asset rest proj asset_id use ss)"

fun project_get_video_asset ::
  "'w storage_backend list \<Rightarrow> project \<Rightarrow> string \<Rightarrow> asset_use \<Rightarrow> 'w session
     \<Rightarrow> (exn + bytes) \<times> 'w session" where
  "project_get_video_asset [] proj asset_id use ss =
     (Inl (Exception (''Failed to load video asset '' @ asset_id)), ss)"
| "project_get_video_asset (backend # rest) proj asset_id use ss =
     (if primary backend then on_backing (get_video_asset backend proj asset_id use) ss
      else project_get_video_asset rest proj asset_id use ss)"

fun delete_everywhere :: "'w storage_backend list \<Rightarrow> string \<Rightarrow> 'w \<Rightarrow> (exn + unit) \<times> 'w" where
  "delete_everywhere [] project_id w = (Inr (), w)"
| "delete_everywhere (backend # rest) project_id w =
     (case delete_project backend project_id w of
        (Inl e, w1) \<Rightarrow> (Inl e, w1)
      | (Inr u, w1) \<Rightarrow> delete_everywhere rest project_id w1)"

definition project_delete ::
  "'w storage_backend list \<Rightarrow> project \<Rightarrow> 'w session \<Rightarrow> (exn + unit) \<times> 'w session" where
  "project_delete backends proj ss =
     (case delete_everywhere backends (proj_id proj) (backing ss) of
        (Inl e, w1) \<Rightarrow> (Inl e, ss\<lparr>backing := w1\<rparr>)
      | (Inr u, w1) \<Rightarrow> (Inr (), delete_project_metadata (proj_id proj) (ss\<lparr>backing := w1\<rparr>)))"

text \<open>\<^verbatim>\<open>Project._primary_backend\<close>: the first registered backend flagged primary.\<close>

definition primary_backend :: "'w storage_backend list \<Rightarrow> 'w storage_backend option" where
  "primary_backend backends = find primary backends"

section \<open>The two storage backends\<close>

text \<open>
  What the concrete backends act on: the remote service behind the context's stubs, the
  local files (regular files by path; a directory exists when a file lies under it), the
  paths on which the operating system refuses a write, the values
  \<^verbatim>\<open>uuid.uuid4()\<close> returns in turn, and the JSON parser of the runtime
  (\<open>None\<close> on a text that \<^verbatim>\<open>json.loads\<close> rejects).
\<close>

record 's store =
  remote :: "'s remote"
  files :: "(string \<times> bytes) list"
  unwritable :: "string set"
  uuid_source :: "nat \<Rightarrow> string"
  uuid_drawn :: nat
  json_parser :: "string \<Rightarrow> settings option"

definition uuid4 :: "'s store \<Rightarrow> string \<times> 's store" where
  "uuid4 st = (uuid_source st (uuid_drawn st), st\<lparr>uuid_drawn := Suc (uuid_drawn st)\<rparr>)"

definition isfile :: "'s store \<Rightarrow> string \<Rightarrow> bool" where
  "isfile st path = (map_of (files st) path \<noteq> None)"

definition endswith :: "string \<Rightarrow> string \<Rightarrow> bool" where
  "endswith s suffix \<longleftrightarrow>
     length suffix \<le> length s \<and> drop (length s - length suffix) s = suffix"

text \<open>Creating the parent directories and writing the file, as one step that may fail.\<close>

definition write_file :: "string \<Rightarrow> bytes \<Rightarrow> 's store \<Rightarrow> (exn + unit) \<times> 's store" where
  "write_file path data st =
     (if path \<in> unwritable st then (Inl (OSError path), st)
      else (Inr (), st\<lparr>files := (path, data) # filter (\<lambda>(q, d). q \<noteq> path) (files st)\<rparr>))"

definition read_file :: "string \<Rightarrow> 's store \<Rightarrow> (exn + bytes) \<times> 's store" where
  "read_file path st =
     (case map_of (files st) path of
        None \<Rightarrow> (Inl (FileNotFoundError path), st)
      | Some data \<Rightarrow> (Inr data, st))"

text \<open>\<^verbatim>\<open>os.path.join\<close> of two components (POSIX).\<close>

definition path_join :: "string \<Rightarrow> string \<Rightarrow> string" where
  "path_join a b =
     (if b \<noteq> [] \<and> hd b = CHR ''/'' then b
      else if a = [] \<or> last a = CHR ''/'' then a @ b
      else a @ ''/'' @ b)"

definition get_path_for_asset :: "string \<Rightarrow> string \<Rightarrow> string \<Rightarrow> string" where
  "get_path_for_asset projects_root project_id fname =
     path_join (path_join projects_root project_id) fname"

definition json_loads :: "'s store \<Rightarrow> string \<Rightarrow> exn + settings" where
  "json_loads st text =
     (case json_parser st text of None \<Rightarrow> Inl JSONDecodeError | Some v \<Rightarrow> Inr v)"

definition image_to_png_bytes :: "picture \<Rightarrow> bytes" where
  "image_to_png_bytes img = img"

subsection \<open>LocalFileBackend\<close>

text \<open>
  The choice of the file name in both asset writes: the given id, or a fresh uuid when
  none is given and the backend is primary, or a \<^verbatim>\<open>ValueError\<close>.
\<close>

definition choose_filename ::
  "bool \<Rightarrow> string \<Rightarrow> string option \<Rightarrow> 's store \<Rightarrow> (exn + string) \<times> 's store" where
  "choose_filename is_primary message asset_id st =
     (case asset_id of
        Some a \<Rightarrow> (Inr a, st)
      | None \<Rightarrow>
          if \<not> is_primary then (Inl (ValueError message), st)
          else (case uuid4 st of (u, st1) \<Rightarrow> (Inr u, st1)))"

definition local_put_image_asset ::
  "bool \<Rightarrow> string \<Rightarrow> project \<Rightarrow> picture \<Rightarrow> asset_use \<Rightarrow> string option \<Rightarrow> 's store
     \<Rightarrow> (exn + string) \<times> 's store" where
  "local_put_image_asset is_primary projects_root proj img use asset_id st =
     (let png = image_to_png_bytes img
      in case choose_filename is_primary
                ''If asset_id is None, then LocalFileBackend must be primary.'' asset_id st of
           (Inl e, st1) \<Rightarrow> (Inl e, st1)
         | (Inr fname, st1) \<Rightarrow>
             (let output_path = get_path_for_asset projects_root (proj_id proj) fname
              in case write_file (output_path @ ''.png'') png st1 of
                   (Inl e, st2) \<Rightarrow> (Inl e, st2)
                 | (Inr u, st2) \<Rightarrow> (Inr fname, st2)))"

definition local_put_video_asset ::
  "bool \<Rightarrow> string \<Rightarrow> project \<Rightarrow> string \<Rightarrow> string option \<Rightarrow> 's store
     \<Rightarrow> (exn + string) \<times> 's store" where
  "local_put_video_asset is_primary projects_root proj video_path asset_id st =
     (if \<not> isfile st video_path \<or> \<not> endswith video_path ''.mp4''
      then (Inl (ValueError ''Invalid video file path. Must be an existing .mp4 file.''), st)
      else
        (case choose_filename is_primary
                ''If name is None, then LocalFileBackend must be primary.'' asset_id st of
           (Inl e, st1) \<Rightarrow> (Inl e, st1)
         | (Inr fname, st1) \<Rightarrow>
             (let output_path = get_path_for_asset projects_root (proj_id proj) fname
              in case read_file video_path st1 of
                   (Inl e, st2) \<Rightarrow> (Inl e, st2)
                 | (Inr data, st2) \<Rightarrow>
                     (case write_file output_path data st2 of
                        (Inl e, st3) \<Rightarrow> (Inl e, st3)
                      | (Inr u, st3) \<Rightarrow> (Inr fname, st3)))))"

definition local_get_image_asset ::
  "string \<Rightarrow> project \<Rightarrow> string \<Rightarrow> asset_use \<Rightarrow> 's store \<Rightarrow> (exn + picture) \<times> 's store" where
  "local_get_image_asset projects_root proj asset_id use st =
     read_file (get_path_for_asset projects_root (proj_id proj) (asset_id @ ''.png'')) st"

definition local_get_video_asset ::
  "string \<Rightarrow> project \<Rightarrow> string \<Rightarrow> asset_use \<Rightarrow> 's store \<Rightarrow> (exn + bytes) \<times> 's store" where
  "local_get_video_asset projects_root proj asset_id use st =
     read_file (get_path_for_asset projects_root (proj_id proj) asset_id) st"

definition local_get_project_settings ::
  "string \<Rightarrow> project \<Rightarrow> index_entry \<Rightarrow> 's store \<Rightarrow> (exn + settings) \<times> 's store" where
  "local_get_project_settings projects_root proj asset_id st =
     (case read_file (get_path_for_asset projects_root (proj_id proj) ''project_settings.json'')
             st of
        (Inl e, st1) \<Rightarrow> (Inl e, st1)
      | (Inr text, st1) \<Rightarrow> (json_loads st1 text, st1))"

definition under :: "string \<Rightarrow> string \<Rightarrow> bool" where
  "under dir path = (take (Suc (length dir)) path = dir @ ''/'')"

text \<open>\<^verbatim>\<open>shutil.rmtree\<close> of the project directory; it fails when there is none.\<close>

definition local_delete_project :: "string \<Rightarrow> string \<Rightarrow> 's store \<Rightarrow> (exn + unit) \<times> 's store" where
  "local_delete_project projects_root project_id st =
     (if project_id = [] then (Inr (), st)
      else
        (let project_dir_path = path_join projects_root project_id
         in if \<not> list_ex (\<lambda>(q, d). under project_dir_path q) (files st)
            then (Inl (FileNotFoundError project_dir_path), st)
            else (Inr (),
                  st\<lparr>files := filter (\<lambda>(q, d). \<not> under project_dir_path q) (files st)\<rparr>)))"

definition LocalFileBackend :: "bool \<Rightarrow> bool \<Rightarrow> string \<Rightarrow> 's store storage_backend" where
  "LocalFileBackend is_primary is_primary_fs projects_root =
     \<lparr>primary = is_primary, primary_fs = is_primary_fs,
      delete_project = local_delete_project projects_root,
      get_project_settings = local_get_project_settings projects_root,
      get_image_asset = local_get_image_asset projects_root,
      put_image_asset = local_put_image_asset is_primary projects_root,
      get_video_asset = local_get_video_asset projects_root,
      put_video_asset = local_put_video_asset is_primary projects_root\<rparr>"

subsection \<open>AssetServiceBackend\<close>

definition empty_artifact :: artifact where
  "empty_artifact =
     \<lparr>art_type = ARTIFACT_OTHER 0, art_mime = [], art_uuid = [], art_binary = [],
      art_text = [], art_tensor = [],
      art_classifier = \<lparr>realized_action = ACTION_OTHER 0, exceeds = []\<rparr>\<rparr>"

definition image_to_prompt :: "picture \<Rightarrow> artifact_type \<Rightarrow> prompt" where
  "image_to_prompt img type =
     (let png = image_to_png_bytes img
      in ArtifactPrompt True (empty_artifact\<lparr>art_type := type, art_binary := png\<rparr>))"

definition asset_request ::
  "'s api_context \<Rightarrow> prompt \<Rightarrow> asset_action \<Rightarrow> string \<Rightarrow> asset_use \<Rightarrow> request" where
  "asset_request c p act project_id use =
     \<lparr>engine_id = ep_engine_id (asset_endpoint c), requested_type = None, prompts = [p],
      image = None, transform = None,
      asset = Some \<lparr>asset_act = act, asset_project_id = project_id, asset_use_of = use\<rparr>,
      extras = None\<rparr>"

text \<open>
  \<^verbatim>\<open>results[kind][0]\<close> once the key is known to be present, read at the type the
  caller returns. The decoder files only texts under the text kind, pictures under the
  image kind and byte strings under the video kind, so the \<open>TypeError\<close> branches are
  never taken on its output.
\<close>

fun first_text :: "decoded list \<Rightarrow> exn + string" where
  "first_text [] = Inl IndexError"
| "first_text (Text s # ds) = Inr s"
| "first_text (d # ds) = Inl TypeError"

fun first_picture :: "decoded list \<Rightarrow> exn + picture" where
  "first_picture [] = Inl IndexError"
| "first_picture (Picture b # ds) = Inr b"
| "first_picture (d # ds) = Inl TypeError"

fun first_binary :: "decoded list \<Rightarrow> exn + bytes" where
  "first_binary [] = Inl IndexError"
| "first_binary (Binary b # ds) = Inr b"
| "first_binary (d # ds) = Inl TypeError"

text \<open>
  The common shape of the remote operations: run the request on the asset endpoint and
  return the first value of one kind, or fail with the operation's message.
\<close>

definition asset_call ::
  "'s api_context \<Rightarrow> request \<Rightarrow> artifact_type \<Rightarrow> (decoded list \<Rightarrow> exn + 'a) \<Rightarrow> string
     \<Rightarrow> 's store \<Rightarrow> (exn + 'a) \<times> 's store" where
  "asset_call c rq kind pick message st =
     (case run_request c (asset_endpoint c) (Request rq) (remote st) of
        (Inl e, rq1, r1) \<Rightarrow> (Inl e, st\<lparr>remote := r1\<rparr>)
      | (Inr res, rq1, r1) \<Rightarrow>
          (case res kind of
             Some ds \<Rightarrow> (pick ds, st\<lparr>remote := r1\<rparr>)
           | None \<Rightarrow> (Inl (Exception message), st\<lparr>remote := r1\<rparr>)))"

text \<open>
  \<^verbatim>\<open>asset_id if asset_id else proj.file.id\<close>: a missing or empty id falls back on
  \<^verbatim>\<open>proj.file\<close>, an attribute the \<^verbatim>\<open>Project\<close> wrapper does not have. A stored
  metadata dictionary in the place of the id is refused by the artifact's string field.
  The text that comes back is parsed.
\<close>

definition asset_get_project_settings ::
  "'s api_context \<Rightarrow> project \<Rightarrow> index_entry \<Rightarrow> 's store \<Rightarrow> (exn + settings) \<times> 's store" where
  "asset_get_project_settings c proj asset_id st =
     (case asset_id of
        AssetEntry m \<Rightarrow> (Inl TypeError, st)
      | KeyEntry None \<Rightarrow> (Inl AttributeError, st)
      | KeyEntry (Some a) \<Rightarrow>
          if a = [] then (Inl AttributeError, st)
          else
            (case asset_call c
                    (asset_request c
                       (ArtifactPrompt False
                          (empty_artifact\<lparr>art_type := ARTIFACT_TEXT,
                                            art_mime := ''application/json'', art_uuid := a\<rparr>))
                       ASSET_GET (proj_id proj) ASSET_USE_PROJECT)
                    ARTIFACT_TEXT first_text
                    (''Failed to load project file for '' @ proj_id proj) st of
               (Inl e, st1) \<Rightarrow> (Inl e, st1)
             | (Inr text, st1) \<Rightarrow> (json_loads st1 text, st1)))"

definition asset_get_image_asset ::
  "'s api_context \<Rightarrow> project \<Rightarrow> string \<Rightarrow> asset_use \<Rightarrow> 's store \<Rightarrow> (exn + picture) \<times> 's store" where
  "asset_get_image_asset c proj asset_id use st =
     asset_call c
       (asset_request c
          (ArtifactPrompt False
             (empty_artifact\<lparr>art_type := ARTIFACT_IMAGE, art_mime := ''image/png'',
                               art_uuid := asset_id\<rparr>))
          ASSET_GET (proj_id proj) use)
       ARTIFACT_IMAGE first_picture
       (''Failed to load image asset '' @ asset_id @ '' for project '' @ proj_id proj) st"

definition asset_put_image_asset ::
  "'s api_context \<Rightarrow> project \<Rightarrow> picture \<Rightarrow> asset_use \<Rightarrow> string option \<Rightarrow> 's store
     \<Rightarrow> (exn + string) \<times> 's store" where
  "asset_put_image_asset c proj img use asset_id st =
     asset_call c
       (asset_request c (image_to_prompt img ARTIFACT_IMAGE) ASSET_PUT (proj_id proj) use)
       ARTIFACT_TEXT first_text
       (''Failed to store image asset for project '' @ proj_id proj) st"

definition asset_get_video_asset ::
  "'s api_context \<Rightarrow> project \<Rightarrow> string \<Rightarrow> asset_use \<Rightarrow> 's store \<Rightarrow> (exn + bytes) \<times> 's store" where
  "asset_get_video_asset c proj asset_id use st =
     asset_call c
       (asset_request c
          (ArtifactPrompt False
             (empty_artifact\<lparr>art_type := ARTIFACT_VIDEO, art_mime := ''video/mp4'',
                               art_uuid := asset_id\<rparr>))
          ASSET_GET (proj_id proj) use)
       ARTIFACT_VIDEO first_binary
       (''Failed to load video asset '' @ asset_id @ '' for project '' @ proj_id proj) st"

definition asset_put_video_asset ::
  "'s api_context \<Rightarrow> project \<Rightarrow> string \<Rightarrow> string option \<Rightarrow> 's store
     \<Rightarrow> (exn + string) \<times> 's store" where
  "asset_put_video_asset c proj video_path asset_id st =
     (if \<not> isfile st video_path \<or> \<not> endswith video_path ''.mp4''
      then (Inl (ValueError ''Invalid video file path. Must be an existing .mp4 file.''), st)
      else
        (case read_file video_path st of
           (Inl e, st1) \<Rightarrow> (Inl e, st1)
         | (Inr binary_data, st1) \<Rightarrow>
             asset_call c
               (asset_request c
                  (ArtifactPrompt False
                     (empty_artifact\<lparr>art_type := ARTIFACT_VIDEO, art_mime := ''video/mp4'',
                                       art_binary := binary_data\<rparr>))
                  ASSET_PUT (proj_id proj) ASSET_USE_INPUT)
               ARTIFACT_TEXT first_text
               (''Failed to store video asset for project '' @ proj_id proj) st1))"

definition asset_delete_project ::
  "'s api_context \<Rightarrow> string \<Rightarrow> 's store \<Rightarrow> (exn + unit) \<times> 's store" where
  "asset_delete_project c project_id st =
     (case proj_stub c of
        None \<Rightarrow> (Inl AttributeError, st)
      | Some ps \<Rightarrow>
          (case Delete ps project_id (server (remote st)) of
             (out, s1) \<Rightarrow>
               ((case out of Inl e \<Rightarrow> Inl (RpcError e) | Inr u \<Rightarrow> Inr ()),
                st\<lparr>remote := (remote st)\<lparr>server := s1,
                       events := events (remote st) @ [ProjectDelete project_id out]\<rparr>\<rparr>)))"

definition AssetServiceBackend :: "'s api_context \<Rightarrow> bool \<Rightarrow> 's store storage_backend" where
  "AssetServiceBackend c is_primary =
     \<lparr>primary = is_primary, primary_fs = False,
      delete_project = asset_delete_project c,
      get_project_settings = asset_get_project_settings c,
      get_image_asset = asset_get_image_asset c,
      put_image_asset = asset_put_image_asset c,
      get_video_asset = asset_get_video_asset c,
      put_video_asset = asset_put_video_asset c\<rparr>"

text \<open>\<^verbatim>\<open>Project.init_backends\<close>: the remote backend is primary, the local one mirrors.\<close>

definition init_backends :: "'s api_context \<Rightarrow> 's store storage_backend list" where
  "init_backends c = [AssetServiceBackend c True, LocalFileBackend False True ''projects'']"

section \<open>Chain builder and the multi-stage transform operations\<close>

text \<open>\<^verbatim>\<open>str(n)\<close> for a non-negative integer.\<close>

fun str_nat :: "nat \<Rightarrow> string" where
  "str_nat n =
     (if n < 10 then [''0123456789'' ! n]
      else str_nat (n div 10) @ [''0123456789'' ! (n mod 10)])"

declare str_nat.simps [simp del]

text \<open>
  The images the operations take and return are run-time values: the pixel arrays the
  decoder produces. \<^verbatim>\<open>image_to_prompt\<close> raises a \<^verbatim>\<open>TypeError\<close> on any other
  value.
\<close>

definition image_prompt :: "decoded \<Rightarrow> exn + prompt" where
  "image_prompt v =
     (case v of Picture b \<Rightarrow> Inr (image_to_prompt b ARTIFACT_IMAGE) | _ \<Rightarrow> Inl TypeError)"

fun image_prompts :: "decoded list \<Rightarrow> exn + prompt list" where
  "image_prompts [] = Inr []"
| "image_prompts (v # vs) =
     (case image_prompt v of
        Inl e \<Rightarrow> Inl e
      | Inr p \<Rightarrow> (case image_prompts vs of Inl e \<Rightarrow> Inl e | Inr ps \<Rightarrow> Inr (p # ps)))"

definition tensor_to_prompt :: "tensor \<Rightarrow> prompt" where
  "tensor_to_prompt t =
     ArtifactPrompt False (empty_artifact\<lparr>art_type := ARTIFACT_TENSOR, art_tensor := t\<rparr>)"

text \<open>The two assertions on the images argument.\<close>

definition images_asserted :: "decoded list \<Rightarrow> bool" where
  "images_asserted images =
     (case images of
        [] \<Rightarrow> False
      | v # vs \<Rightarrow> (case v of Picture b \<Rightarrow> True | _ \<Rightarrow> False))"

text \<open>\<^verbatim>\<open>results[kind][0]\<close> and \<^verbatim>\<open>results[kind]\<close> with their exceptions.\<close>

definition first_of :: "results \<Rightarrow> artifact_type \<Rightarrow> string \<Rightarrow> exn + decoded" where
  "first_of res kind key_name =
     (case res kind of
        None \<Rightarrow> Inl (KeyError key_name)
      | Some [] \<Rightarrow> Inl IndexError
      | Some (d # ds) \<Rightarrow> Inr d)"

definition return_stage :: "string \<Rightarrow> request \<Rightarrow> stage" where
  "return_stage sid rq =
     \<lparr>stage_id = sid, stage_request = rq,
      stage_on_status = [\<lparr>status_action = [STAGE_ACTION_RETURN], status_target = None\<rparr>]\<rparr>"

subsection \<open>\<^verbatim>\<open>Context.transform\<close>\<close>

datatype transform_params = One transform_parameters | Many "transform_parameters list"

definition transform_results :: "results \<Rightarrow> decoded list \<times> decoded list option" where
  "transform_results res =
     ((case res ARTIFACT_IMAGE of None \<Rightarrow> [] | Some l \<Rightarrow> l)
        @ (case res ARTIFACT_DEPTH of None \<Rightarrow> [] | Some l \<Rightarrow> l),
      res ARTIFACT_MASK)"

text \<open>
  The single-request branch: the prompts are built first, then \<^verbatim>\<open>params[0]\<close> is
  read when the parameters are a list.
\<close>

definition transform_single ::
  "'s api_context \<Rightarrow> decoded list \<Rightarrow> transform_params \<Rightarrow> (string \<times> string) list option
     \<Rightarrow> 's remote \<Rightarrow> (exn + decoded list \<times> decoded list option) \<times> 's remote" where
  "transform_single c images params xs w =
     (case image_prompts images of
        Inl e \<Rightarrow> (Inl e, w)
      | Inr ps \<Rightarrow>
          (case (case params of
                   One p \<Rightarrow> Inr p
                 | Many [] \<Rightarrow> Inl IndexError
                 | Many (p # rest) \<Rightarrow> Inr p) of
             Inl e \<Rightarrow> (Inl e, w)
           | Inr p \<Rightarrow>
               (case run_request c (transform_endpoint c)
                       (Request \<lparr>engine_id = ep_engine_id (transform_endpoint c),
                                 requested_type = None, prompts = ps, image = None,
                                 transform = Some p, asset = None, extras = xs\<rparr>) w of
                  (Inl e, rq1, w1) \<Rightarrow> (Inl e, w1)
                | (Inr res, rq1, w1) \<Rightarrow> (Inr (transform_results res), w1))))"

text \<open>
  The debug loop: \<^verbatim>\<open>for param in params: images, mask = self.transform(images, param, extras)\<close>.
  Each call is given one parameter, so it asserts on its images and takes the
  single-request branch.
\<close>

fun transform_debug ::
  "'s api_context \<Rightarrow> transform_parameters list \<Rightarrow> (string \<times> string) list option
     \<Rightarrow> decoded list \<times> decoded list option \<Rightarrow> 's remote
     \<Rightarrow> (exn + decoded list \<times> decoded list option) \<times> 's remote" where
  "transform_debug c [] xs acc w = (Inr acc, w)"
| "transform_debug c (param # rest) xs (images, masks) w =
     (if \<not> images_asserted images then (Inl AssertionError, w)
      else (case transform_single c images (One param) xs w of
              (Inl e, w1) \<Rightarrow> (Inl e, w1)
            | (Inr out, w1) \<Rightarrow> transform_debug c rest xs out w1))"

text \<open>
  On the chain path every stage request is built with the keyword
  \<^verbatim>\<open>extras_struct\<close>. The request message has no field of that name (the other
  requests of this module pass \<^verbatim>\<open>extras\<close>), and a message constructor raises a
  \<^verbatim>\<open>ValueError\<close> on an unknown keyword, after the keyword arguments (the image
  prompts of the first stage among them) have been evaluated. So the first stage is never
  built and no chain is sent.
\<close>

definition transform ::
  "'s api_context \<Rightarrow> decoded list \<Rightarrow> transform_params \<Rightarrow> (string \<times> string) list option
     \<Rightarrow> 's remote \<Rightarrow> (exn + decoded list \<times> decoded list option) \<times> 's remote" where
  "transform c images params xs w =
     (if \<not> images_asserted images then (Inl AssertionError, w)
      else
        (case params of
           Many (p # q # rest) \<Rightarrow>
             if debug_no_chains c then transform_debug c (p # q # rest) xs (images, None) w
             else if xs \<noteq> None then (Inl AssertionError, w)
             else
               (case image_prompts images of
                  Inl e \<Rightarrow> (Inl e, w)
                | Inr ps \<Rightarrow>
                    (Inl (ValueError ''Protocol message Request has no extras_struct field''),
                     w))
         | _ \<Rightarrow> transform_single c images params xs w))"

subsection \<open>\<^verbatim>\<open>Context.transform_3d\<close>\<close>

definition tensor_prompt :: "decoded \<Rightarrow> exn + prompt" where
  "tensor_prompt v = (case v of Tensor t \<Rightarrow> Inr (tensor_to_prompt t) | _ \<Rightarrow> Inl TypeError)"

definition op_id :: "transform_parameters \<Rightarrow> string" where
  "op_id t = (case t of Resample x \<Rightarrow> ''resample'' | _ \<Rightarrow> ''camera_pose'')"

definition warp_results :: "results \<Rightarrow> (exn + decoded list \<times> decoded list option)" where
  "warp_results res =
     (case res ARTIFACT_IMAGE of
        None \<Rightarrow> Inl (KeyError ''ARTIFACT_IMAGE'')
      | Some warped_images \<Rightarrow> Inr (warped_images, res ARTIFACT_MASK))"

text \<open>
  The debug path sends the depth request straight to the stub, outside the retry loop:
  an RPC error propagates as it is and classifications are not looked at.
\<close>

definition transform_3d ::
  "'s api_context \<Rightarrow> decoded list \<Rightarrow> transform_parameters \<Rightarrow> transform_parameters
     \<Rightarrow> (string \<times> string) list option \<Rightarrow> 's remote
     \<Rightarrow> (exn + decoded list \<times> decoded list option) \<times> 's remote" where
  "transform_3d c images depth_calc t xs w =
     (if \<not> images_asserted images then (Inl AssertionError, w)
      else
        (case image_prompts images of
           Inl e \<Rightarrow> (Inl e, w)
         | Inr ips \<Rightarrow>
             (let eng = ep_engine_id (transform_endpoint c);
                  rq_depth = \<lparr>engine_id = eng, requested_type = Some ARTIFACT_TENSOR,
                              prompts = take 1 ips, image = None,
                              transform = Some depth_calc, asset = None, extras = None\<rparr>;
                  rq_transform = \<lparr>engine_id = eng, requested_type = None, prompts = ips,
                                  image = None, transform = Some t, asset = None,
                                  extras = Some (case xs of None \<Rightarrow> [] | Some l \<Rightarrow> l)\<rparr>
              in if debug_no_chains c then
                   (case Generate (ep_stub (transform_endpoint c)) rq_depth (server w) of
                      (out, s1) \<Rightarrow>
                        (let w1 = w\<lparr>server := s1,
                                    events := events w @ [Call (Request rq_depth) out]\<rparr>
                         in case out of
                              Inl e \<Rightarrow> (Inl (RpcError e), w1)
                            | Inr resp \<Rightarrow>
                                (case first_of (process_response resp) ARTIFACT_TENSOR
                                        ''ARTIFACT_TENSOR'' of
                                   Inl e \<Rightarrow> (Inl e, w1)
                                 | Inr d \<Rightarrow>
                                     (case tensor_prompt d of
                                        Inl e \<Rightarrow> (Inl e, w1)
                                      | Inr tp \<Rightarrow>
                                          (case run_request c (transform_endpoint c)
                                                  (Request (rq_transform
                                                     \<lparr>prompts := prompts rq_transform @ [tp]\<rparr>))
                                                  w1 of
                                             (Inl e, rq1, w2) \<Rightarrow> (Inl e, w2)
                                           | (Inr res, rq1, w2) \<Rightarrow> (warp_results res, w2))))))
                 else
                   (case run_request c (transform_endpoint c)
                           (ChainRequest
                              \<lparr>request_id = op_id t @ ''_3d_chain'',
                               stages =
                                 [\<lparr>stage_id = ''depth_calc'', stage_request = rq_depth,
                                   stage_on_status =
                                     [\<lparr>status_action = [STAGE_ACTION_PASS],
                                       status_target = Some (op_id t)\<rparr>]\<rparr>,
                                  return_stage (op_id t) rq_transform]\<rparr>) w of
                      (Inl e, rq1, w1) \<Rightarrow> (Inl e, w1)
                    | (Inr res, rq1, w1) \<Rightarrow> (warp_results res, w1)))))"

section \<open>Vocabulary of the properties\<close>

text \<open>
  The stub call an attempt makes for a request, and the assertion that guards a single
  request: the endpoint's engine id must be the request's.
\<close>

definition stub_call :: "'s endpoint \<Rightarrow> any_request \<Rightarrow> 's \<Rightarrow> (rpc_error + response) \<times> 's" where
  "stub_call ep rq s =
     (case rq of
        Request r \<Rightarrow> Generate (ep_stub ep) r s
      | ChainRequest ch \<Rightarrow> ChainGenerate (ep_stub ep) ch s)"

definition addressed :: "'s endpoint \<Rightarrow> any_request \<Rightarrow> bool" where
  "addressed ep rq = (case rq of Request r \<Rightarrow> ep_engine_id ep = engine_id r | ChainRequest ch \<Rightarrow> True)"



fun calls_of :: "event list \<Rightarrow> any_request list" where
  "calls_of [] = []"
| "calls_of (Sleep x # es) = calls_of es"
| "calls_of (Call rq out # es) = rq # calls_of es"
| "calls_of (ProjectDelete i out # es) = calls_of es"





text \<open>
  What the adjustment for a retry is allowed to change. \<open>untouched\<close> blanks the fields
  it may write (the seeds and the schedule start of the first step parameter), so that two
  image parameters agree on everything else exactly when their \<open>untouched\<close> images are
  equal. A single request can be adjusted when it carries image parameters; a chain always
  takes the adjusting branch.
\<close>

definition clamp01 :: "real \<Rightarrow> real" where
  "clamp01 x = max 0 (min 1 x)"

definition first_start :: "image_parameters \<Rightarrow> real option" where
  "first_start ip =
     (case parameters ip of
        [] \<Rightarrow> None
      | p0 # ps \<Rightarrow> (case schedule p0 of None \<Rightarrow> None | Some s \<Rightarrow> sched_start s))"

definition untouched :: "image_parameters \<Rightarrow> image_parameters" where
  "untouched ip =
     ip\<lparr>seed := [],
        parameters :=
          (case parameters ip of
             [] \<Rightarrow> []
           | p0 # ps \<Rightarrow>
               p0\<lparr>schedule := map_option (\<lambda>s. s\<lparr>sched_start := None\<rparr>) (schedule p0)\<rparr> # ps)\<rparr>"

definition image_adjusted :: "real \<Rightarrow> nat \<Rightarrow> image_parameters \<Rightarrow> image_parameters \<Rightarrow> bool" where
  "image_adjusted off attempt ip ip' \<longleftrightarrow>
     seed ip' = map (\<lambda>s. s + 1) (seed ip)
     \<and> first_start ip' =
         (if attempt > 0 then map_option (\<lambda>x. clamp01 (x + off)) (first_start ip)
          else first_start ip)
     \<and> untouched ip' = untouched ip"

definition request_adjusted :: "real \<Rightarrow> nat \<Rightarrow> request \<Rightarrow> request \<Rightarrow> bool" where
  "request_adjusted off attempt r r' \<longleftrightarrow>
     (case (image r, image r') of
        (Some ip, Some ip') \<Rightarrow> image_adjusted off attempt ip ip'
      | _ \<Rightarrow> False)
     \<and> r'\<lparr>image := None\<rparr> = r\<lparr>image := None\<rparr>"

definition stage_adjusted :: "real \<Rightarrow> nat \<Rightarrow> stage \<Rightarrow> stage \<Rightarrow> bool" where
  "stage_adjusted off attempt st st' \<longleftrightarrow>
     (if image (stage_request st) = None then st' = st
      else request_adjusted off attempt (stage_request st) (stage_request st')
           \<and> st'\<lparr>stage_request := stage_request st\<rparr> = st)"

definition retry_adjusted :: "real \<Rightarrow> nat \<Rightarrow> any_request \<Rightarrow> any_request \<Rightarrow> bool" where
  "retry_adjusted off attempt rq rq' \<longleftrightarrow>
     (case (rq, rq') of
        (Request r, Request r') \<Rightarrow> request_adjusted off attempt r r'
      | (ChainRequest ch, ChainRequest ch') \<Rightarrow>
          list_all2 (stage_adjusted off attempt) (stages ch) (stages ch')
          \<and> ch'\<lparr>stages := stages ch\<rparr> = ch
      | _ \<Rightarrow> False)"

definition retriable :: "any_request \<Rightarrow> bool" where
  "retriable rq = (case rq of Request r \<Rightarrow> image r \<noteq> None | ChainRequest ch \<Rightarrow> True)"

definition request_seeds :: "request \<Rightarrow> int list" where
  "request_seeds r = (case image r of None \<Rightarrow> [] | Some ip \<Rightarrow> seed ip)"

definition seeds_of :: "any_request \<Rightarrow> int list" where
  "seeds_of rq =
     (case rq of
        Request r \<Rightarrow> request_seeds r
      | ChainRequest ch \<Rightarrow> concat (map (\<lambda>st. request_seeds (stage_request st)) (stages ch)))"

definition seeds_below_max :: "any_request \<Rightarrow> bool" where
  "seeds_below_max rq = list_all (\<lambda>s. 0 \<le> s \<and> s < uint32_max) (seeds_of rq)"

section \<open>Sample inputs\<close>

text \<open>The configuration that \<^verbatim>\<open>Context.__init__\<close> sets up.\<close>

definition default_context :: "'s stub \<Rightarrow> 's api_context" where
  "default_context st =
     \<lparr>ctx_stub = st, proj_stub = None, debug_no_chains = False, max_retries = 5, retry_delay = 1,
      retry_obfuscation = False, retry_schedule_offset = 1 / 10\<rparr>"


definition exhausted :: rpc_error where
  "exhausted = \<lparr>rpc_code = Some RESOURCE_EXHAUSTED, rpc_details = ''out of credits''\<rparr>"


definition broke_stub :: "nat stub" where
  "broke_stub = \<lparr>Generate = (\<lambda>r s. (Inl exhausted, Suc s)),
                 ChainGenerate = (\<lambda>ch s. (Inl exhausted, Suc s))\<rparr>"

definition text_request :: request where
  "text_request =
     \<lparr>engine_id = ''stable-diffusion-v1-5'', requested_type = None,
      prompts = [TextPrompt ''a lighthouse'' 1], image = None, transform = None,
      asset = None, extras = None\<rparr>"

definition fresh_remote :: "nat remote" where
  "fresh_remote = \<lparr>server = 0, events = []\<rparr>"

definition blocked :: classifier_parameters where
  "blocked =
     \<lparr>realized_action = ACTION_OBFUSCATE,
      exceeds = [\<lparr>category_name = ''adult'',
                 concepts = [\<lparr>concept = ''nudity'', threshold = Some (9 / 10)\<rparr>]\<rparr>]\<rparr>"

definition censored :: response where
  "censored =
     [[\<lparr>art_type = ARTIFACT_CLASSIFICATIONS, art_mime = [], art_uuid = [], art_binary = [],
        art_text = [], art_tensor = [], art_classifier = blocked\<rparr>]]"

definition censor_stub :: "nat stub" where
  "censor_stub = \<lparr>Generate = (\<lambda>r s. (Inr censored, Suc s)),
                  ChainGenerate = (\<lambda>ch s. (Inr censored, Suc s))\<rparr>"

definition retrying_context :: "'s stub \<Rightarrow> 's api_context" where
  "retrying_context st = (default_context st)\<lparr>retry_obfuscation := True\<rparr>"

definition png_prompt :: prompt where
  "png_prompt = image_to_prompt ''PNG'' ARTIFACT_IMAGE"

text \<open>
  The chain \<^verbatim>\<open>transform_3d\<close> builds for one picture, a depth calculation and a
  resampling, without extras: no stage has image parameters.
\<close>

definition warp_chain :: chain_request where
  "warp_chain =
     \<lparr>request_id = ''resample_3d_chain'',
      stages =
        [\<lparr>stage_id = ''depth_calc'',
          stage_request =
            \<lparr>engine_id = ''transform-server-v1'', requested_type = Some ARTIFACT_TENSOR,
             prompts = [png_prompt], image = None, transform = Some (DepthCalc 0),
             asset = None, extras = None\<rparr>,
          stage_on_status =
            [\<lparr>status_action = [STAGE_ACTION_PASS], status_target = Some ''resample''\<rparr>]\<rparr>,
         \<lparr>stage_id = ''resample'',
          stage_request =
            \<lparr>engine_id = ''transform-server-v1'', requested_type = None,
             prompts = [png_prompt], image = None, transform = Some (Resample 0),
             asset = None, extras = Some []\<rparr>,
          stage_on_status =
            [\<lparr>status_action = [STAGE_ACTION_RETURN], status_target = None\<rparr>]\<rparr>]\<rparr>"

text \<open>
  A request with two step parameters, each with a schedule start; a configuration that
  retries obfuscated answers at most twice; and a request whose seed is the largest
  32-bit value.
\<close>

definition first_step :: step_parameter where
  "first_step =
     \<lparr>scaled_step = 0, sampler = Some \<lparr>cfg_scale = 7, init_noise_scale = 1\<rparr>,
      schedule = Some \<lparr>sched_start = Some (95 / 100), sched_end = None\<rparr>, guidance = None\<rparr>"

definition second_step :: step_parameter where
  "second_step =
     \<lparr>scaled_step = 1 / 2, sampler = Some \<lparr>cfg_scale = 4, init_noise_scale = 1\<rparr>,
      schedule = Some \<lparr>sched_start = Some (1 / 2), sched_end = None\<rparr>, guidance = None\<rparr>"

definition two_start_image :: image_parameters where
  "two_start_image =
     \<lparr>height = 512, width = 512, seed = [41], samples = 1, steps = 50, diffusion = 0,
      masked_area_init = 0, parameters = [first_step, second_step]\<rparr>"

definition two_start_request :: request where
  "two_start_request =
     \<lparr>engine_id = ''stable-diffusion-v1-5'', requested_type = None,
      prompts = [TextPrompt ''a lighthouse'' 1], image = Some two_start_image,
      transform = None, asset = None, extras = None\<rparr>"

definition retry_twice_context :: "nat api_context" where
  "retry_twice_context = (retrying_context censor_stub)\<lparr>max_retries := 2\<rparr>"

definition last_seed_request :: request where
  "last_seed_request =
     two_start_request\<lparr>image := Some (two_start_image\<lparr>seed := [4294967295]\<rparr>)\<rparr>"

text \<open>
  A storage scenario: a service that answers every asset request with the text
  \<open>proj-1/img-7\<close> and one image, an empty local file system, and the default pair of
  backends.
\<close>

definition stored_answer :: response where
  "stored_answer =
     [[empty_artifact\<lparr>art_type := ARTIFACT_TEXT, art_text := ''proj-1/img-7''\<rparr>,
       empty_artifact\<lparr>art_type := ARTIFACT_IMAGE, art_binary := ''PNG''\<rparr>]]"

definition asset_stub :: "nat stub" where
  "asset_stub = \<lparr>Generate = (\<lambda>r s. (Inr stored_answer, Suc s)),
                 ChainGenerate = (\<lambda>ch s. (Inr stored_answer, Suc s))\<rparr>"

definition proj1 :: project where
  "proj1 = \<lparr>proj_id = ''proj-1'', proj_title = ''demo'', proj_file_id = ''file-1''\<rparr>"

definition store0 :: "nat store" where
  "store0 =
     \<lparr>remote = fresh_remote, files = [], unwritable = {},
      uuid_source = (\<lambda>n. replicate (Suc n) CHR ''u''), uuid_drawn = 0,
      json_parser = (\<lambda>text. if text = [] then None else Some text)\<rparr>"

definition session0 :: "nat store session" where
  "session0 = \<lparr>backing = store0, metadata_index = Map.empty, index_file = None\<rparr>"

definition put_request :: request where
  "put_request =
     asset_request (default_context asset_stub) (image_to_prompt ''PNG'' ARTIFACT_IMAGE)
       ASSET_PUT ''proj-1'' ASSET_USE_PROJECT"

definition stored_remote :: "nat remote" where
  "stored_remote = \<lparr>server = 1, events = [Call (Request put_request) (Inr stored_answer)]\<rparr>"

definition readonly_session :: "nat store session" where
  "readonly_session =
     session0\<lparr>backing := store0\<lparr>unwritable := {''projects/proj-1/img-7.png''}\<rparr>\<rparr>"

definition video_store :: "nat store" where
  "video_store = store0\<lparr>files := [(''clip.mp4'', ''MP4'')]\<rparr>"

definition project_context :: "nat api_context" where
  "project_context =
     (default_context asset_stub)\<lparr>proj_stub := Some \<lparr>Delete = (\<lambda>i s. (Inr (), Suc s))\<rparr>\<rparr>"

definition created_session :: "nat store session" where
  "created_session =
     add_asset_metadata ''proj-1'' (Some ''file-1'') ''application/json''
       (Some ''project_settings.json'') (Some ''project_file_id'')
       (session0\<lparr>backing := store0\<lparr>files := [(''projects/proj-1/proj-1'', ''{}''),
                                                (''projects/proj-1/project_settings.json'', ''{}'')]\<rparr>\<rparr>)"

definition debug_context :: "'s stub \<Rightarrow> 's api_context" where
  "debug_context st = (default_context st)\<lparr>debug_no_chains := True\<rparr>"

definition two_steps :: transform_params where
  "two_steps = Many [ColorAdjust 0, Resample 0]"

section \<open>Properties of the orchestrator\<close>

lemma attempt_once_failed:
  assumes "addressed ep rq" "stub_call ep rq (server w) = (Inl e, s')"
  shows "attempt_once ep rq w = (Failed e, w\<lparr>server := s', events := events w @ [Call rq (Inl e)]\<rparr>)"
  using assms
  by (cases rq) (simp_all add: attempt_once_def addressed_def stub_call_def dispatch_def)









text \<open>
  C2 (quota short-circuit). On any attempt, whatever the configured maximum, a transport
  failure whose code is resource exhaustion ends the run at once with the out-of-credits
  failure carrying the remote detail string: one call is recorded, no sleep, no further
  attempt.
\<close>

theorem quota_short_circuit:
  assumes "addressed ep rq"
      and "stub_call ep rq (server w) = (Inl e, s')"
      and "rpc_code e = Some RESOURCE_EXHAUSTED"
  shows "run_attempts c ep (attempt # rest) rq res w
           = (Inl (OutOfCreditsException (rpc_details e)), rq,
              w\<lparr>server := s', events := events w @ [Call rq (Inl e)]\<rparr>)
         \<and> (0 \<le> max_retries c \<longrightarrow>
              run_request c ep rq w
                = (Inl (OutOfCreditsException (rpc_details e)), rq,
                   w\<lparr>server := s', events := events w @ [Call rq (Inl e)]\<rparr>))"
proof -
  have one: "\<And>attempt rest res. run_attempts c ep (attempt # rest) rq res w
           = (Inl (OutOfCreditsException (rpc_details e)), rq,
              w\<lparr>server := s', events := events w @ [Call rq (Inl e)]\<rparr>)"
    using attempt_once_failed[OF assms(1,2)] assms(3) by simp
  have "0 \<le> max_retries c \<Longrightarrow> py_range (max_retries c + 1) = 0 # [1..<nat (max_retries c + 1)]"
    by (simp add: py_range_def upt_conv_Cons)
  then show ?thesis using one by (simp add: run_request_def)
qed

theorem quota_short_circuit_witness:
  "run_attempts (default_context broke_stub) (generate_endpoint (default_context broke_stub))
       [3, 4, 5] (Request text_request) None fresh_remote
     = (Inl (OutOfCreditsException ''out of credits''), Request text_request,
        \<lparr>server = 1, events = [Call (Request text_request) (Inl exhausted)]\<rparr>)
   \<and> run_request (default_context broke_stub) (generate_endpoint (default_context broke_stub))
       (Request text_request) fresh_remote
     = (Inl (OutOfCreditsException ''out of credits''), Request text_request,
        \<lparr>server = 1, events = [Call (Request text_request) (Inl exhausted)]\<rparr>)"
  using quota_short_circuit [of "generate_endpoint (default_context broke_stub)"
          "Request text_request" fresh_remote exhausted 1 "default_context broke_stub" 3 "[4, 5]" None]
  by (simp add: addressed_def stub_call_def generate_endpoint_def default_context_def
        broke_stub_def text_request_def fresh_remote_def exhausted_def)

lemma obfuscation_censored: "obfuscation (process_response censored) = Some blocked"
  by (simp add: process_response_def censored_def add_artifact_def obfuscation_def blocked_def)

lemma shift_start_start:
  "sched_start (shift_start off s) = map_option (\<lambda>x. clamp01 (x + off)) (sched_start s)"
  by (simp add: shift_start_def clamp01_def split: option.splits)

lemma shift_start_frame:
  "shift_start off s\<lparr>sched_start := None\<rparr> = s\<lparr>sched_start := None\<rparr>"
  by (simp add: shift_start_def split: option.splits)

lemma seeds_incremented_fit:
  "list_all (\<lambda>s. 0 \<le> s \<and> s < uint32_max) ss \<Longrightarrow> list_all uint32_value (map (\<lambda>s. s + 1) ss)"
  by (induction ss) (simp_all add: uint32_value_def)

lemma adjust_image_adjusted:
  assumes "list_all (\<lambda>s. 0 \<le> s \<and> s < uint32_max) (seed ip)"
  shows "\<exists>ip'. adjust_image c ip attempt = Inr ip'
            \<and> image_adjusted (retry_schedule_offset c) attempt ip ip'"
  using seeds_incremented_fit[OF assms]
  by (auto simp: image_adjusted_def adjust_image_def first_start_def untouched_def Let_def
        shift_start_start shift_start_frame split: list.splits option.splits)

lemma adjust_request_adjusted:
  assumes "image r \<noteq> None" "list_all (\<lambda>s. 0 \<le> s \<and> s < uint32_max) (request_seeds r)"
  shows "\<exists>r'. adjust_request_for_retry c r attempt = Inr r'
            \<and> request_adjusted (retry_schedule_offset c) attempt r r'"
proof -
  from assms(1) obtain ip where ip: "image r = Some ip" by auto
  with assms(2) have "list_all (\<lambda>s. 0 \<le> s \<and> s < uint32_max) (seed ip)"
    by (simp add: request_seeds_def)
  from adjust_image_adjusted[OF this, of c attempt] obtain ip' where
    "adjust_image c ip attempt = Inr ip'" "image_adjusted (retry_schedule_offset c) attempt ip ip'"
    by blast
  with ip show ?thesis
    by (simp add: adjust_request_for_retry_def request_adjusted_def)
qed

lemma adjust_stages_adjusted:
  "list_all (\<lambda>s. 0 \<le> s \<and> s < uint32_max) (concat (map (\<lambda>st. request_seeds (stage_request st)) sts))
   \<Longrightarrow> \<exists>sts'. adjust_stages c attempt sts = (None, sts')
              \<and> list_all2 (stage_adjusted (retry_schedule_offset c) attempt) sts sts'"
proof (induction sts)
  case Nil
  then show ?case by simp
next
  case (Cons st sts)
  then obtain sts' where rest: "adjust_stages c attempt sts = (None, sts')"
      "list_all2 (stage_adjusted (retry_schedule_offset c) attempt) sts sts'"
    by auto
  show ?case
  proof (cases "image (stage_request st) = None")
    case True
    then have "stage_adjusted (retry_schedule_offset c) attempt st st"
      by (simp add: stage_adjusted_def)
    with True rest show ?thesis by simp
  next
    case False
    from Cons.prems have "list_all (\<lambda>s. 0 \<le> s \<and> s < uint32_max) (request_seeds (stage_request st))"
      by simp
    from adjust_request_adjusted[OF False this, of c attempt] obtain r' where
      r': "adjust_request_for_retry c (stage_request st) attempt = Inr r'"
      "request_adjusted (retry_schedule_offset c) attempt (stage_request st) r'"
      by blast
    have "stage_adjusted (retry_schedule_offset c) attempt st (st\<lparr>stage_request := r'\<rparr>)"
      using False r'(2) by (auto simp: stage_adjusted_def)
    with False rest r'(1) show ?thesis by simp
  qed
qed

lemma retry_adjusted_addressed:
  "retry_adjusted off attempt rq rq' \<Longrightarrow> addressed ep rq \<Longrightarrow> addressed ep rq'"
proof (cases rq; cases rq')
  fix r r' assume a: "retry_adjusted off attempt rq rq'" "addressed ep rq"
    "rq = Request r" "rq' = Request r'"
  then have "r'\<lparr>image := None\<rparr> = r\<lparr>image := None\<rparr>"
    by (simp add: retry_adjusted_def request_adjusted_def)
  then have "engine_id (r'\<lparr>image := None\<rparr>) = engine_id (r\<lparr>image := None\<rparr>)" by simp
  with a show "addressed ep rq'" by (simp add: addressed_def)
qed (simp_all add: retry_adjusted_def addressed_def)

lemma attempt_once_addressed:
  "addressed ep rq \<Longrightarrow> attempt_once ep rq w = dispatch rq (stub_call ep rq (server w)) w"
  by (cases rq) (simp_all add: attempt_once_def addressed_def stub_call_def)

lemma dispatch_events:
  "events (snd (dispatch rq out w)) = events w @ [Call rq (fst out)]"
  by (simp add: dispatch_def Let_def split: sum.splits option.splits)

lemma attempt_once_events:
  "\<exists>es. events (snd (attempt_once ep rq w)) = events w @ es"
  by (cases rq) (simp_all add: attempt_once_def dispatch_events)

lemma run_attempts_events:
  "\<exists>later. events (snd (snd (run_attempts c ep atts rq res w))) = events w @ later"
proof (induction atts arbitrary: rq res w)
  case Nil
  then show ?case by simp
next
  case (Cons attempt rest)
  obtain oc w1 where a: "attempt_once ep rq w = (oc, w1)" by (cases "attempt_once ep rq w")
  from attempt_once_events[of ep rq w] a obtain es where es: "events w1 = events w @ es" by auto
  have IH: "\<exists>later. events (snd (snd (run_attempts c ep rest rq' res' w2))) = events w @ later"
    if "events w2 = events w1 @ more" for rq' res' w2 more
  proof -
    from Cons.IH[of rq' res' w2] obtain later where
      "events (snd (snd (run_attempts c ep rest rq' res' w2))) = events w2 @ later" by blast
    with that es show ?thesis by simp
  qed
  have IH0: "\<exists>later. events (snd (snd (run_attempts c ep rest rq' res' w1))) = events w @ later"
    for rq' res'
    by (rule IH[where more = "[]"]) simp
  have IH1: "\<exists>later. events (snd (snd (run_attempts c ep rest rq' res'
                 (w1\<lparr>events := events w1 @ [x]\<rparr>)))) = events w @ later"
    for rq' res' x
    by (rule IH[where more = "[x]"]) simp
  show ?case
    using a es IH0 IH1
    by (simp split: attempt_outcome.splits any_request.splits sum.splits prod.splits
          option.splits)
qed

lemma run_attempts_first_call:
  assumes "addressed ep rq"
  shows "\<exists>later. events (snd (snd (run_attempts c ep (attempt # rest) rq res w)))
           = events w @ Call rq (fst (stub_call ep rq (server w))) # later"
proof -
  define call where "call = Call rq (fst (stub_call ep rq (server w)))"
  obtain oc w1 where a: "attempt_once ep rq w = (oc, w1)" by (cases "attempt_once ep rq w")
  have ev: "events w1 = events w @ [call]"
    using a attempt_once_addressed[OF assms, of w] dispatch_events[of rq "stub_call ep rq (server w)" w]
    by (simp add: call_def)
  have IH: "\<exists>later. events (snd (snd (run_attempts c ep rest rq' res' w2)))
                 = events w @ call # later"
    if "events w2 = events w1 @ more" for rq' res' w2 more
  proof -
    from run_attempts_events[of c ep rest rq' res' w2] obtain later where
      "events (snd (snd (run_attempts c ep rest rq' res' w2))) = events w2 @ later" by blast
    with that ev show ?thesis by simp
  qed
  have IH0: "\<exists>later. events (snd (snd (run_attempts c ep rest rq' res' w1)))
                = events w @ call # later"
    for rq' res'
    by (rule IH[where more = "[]"]) simp
  have IH1: "\<exists>later. events (snd (snd (run_attempts c ep rest rq' res'
                 (w1\<lparr>events := events w1 @ [x]\<rparr>))))
                = events w @ call # later"
    for rq' res' x
    by (rule IH[where more = "[x]"]) simp
  have "\<exists>later. events (snd (snd (run_attempts c ep (attempt # rest) rq res w)))
           = events w @ call # later"
    using a ev IH0 IH1
    by (simp split: attempt_outcome.splits any_request.splits sum.splits prod.splits
          option.splits)
  then show ?thesis unfolding call_def .
qed

lemma attempt_once_obfuscated:
  assumes "addressed ep rq" "stub_call ep rq (server w) = (Inr resp, s1)"
      and "obfuscation (process_response resp) = Some cl"
  shows "attempt_once ep rq w
           = (Obfuscated cl (process_response resp),
              w\<lparr>server := s1, events := events w @ [Call rq (Inr resp)]\<rparr>)"
  using assms by (simp add: attempt_once_addressed dispatch_def)

text \<open>
  C3 (obfuscation retry mutation), amended. When an attempt that is not the last ends in
  a classifier obfuscation, retries are enabled, the request can be adjusted and every
  seed is below the largest 32-bit value, the run goes on with an adjusted request and
  that request is the one sent at the next attempt. In the adjusted request (for a chain:
  in every stage whose request carries image parameters) every seed is the old one plus 1;
  when the attempt index is positive, a present schedule start of the first step parameter
  is the old one plus the configured offset, clamped to \<open>[0, 1]\<close>; nothing else is
  changed, the schedule starts of the later step parameters and the stages without image
  parameters included.
\<close>

theorem obfuscation_retry_adjusts:
  assumes "addressed ep rq"
      and "stub_call ep rq (server w) = (Inr resp, s1)"
      and "obfuscation (process_response resp) = Some cl"
      and "int attempt \<noteq> max_retries c"
      and "retry_obfuscation c"
      and "retriable rq"
      and "seeds_below_max rq"
  shows "\<exists>rq' later.
           retry_adjusted (retry_schedule_offset c) attempt rq rq'
         \<and> run_attempts c ep (attempt # next_attempt # rest) rq res w
             = run_attempts c ep (next_attempt # rest) rq' (Some (process_response resp))
                 (w\<lparr>server := s1, events := events w @ [Call rq (Inr resp)]\<rparr>)
         \<and> events (snd (snd (run_attempts c ep (attempt # next_attempt # rest) rq res w)))
             = events w @ [Call rq (Inr resp), Call rq' (fst (stub_call ep rq' s1))] @ later"
proof -
  let ?w1 = "w\<lparr>server := s1, events := events w @ [Call rq (Inr resp)]\<rparr>"
  note once = attempt_once_obfuscated[OF assms(1-3)]
  have "\<exists>rq'. retry_adjusted (retry_schedule_offset c) attempt rq rq'
           \<and> run_attempts c ep (attempt # next_attempt # rest) rq res w
               = run_attempts c ep (next_attempt # rest) rq' (Some (process_response resp)) ?w1"
  proof (cases rq)
    case (Request r)
    with assms(6) have img: "image r \<noteq> None" by (simp add: retriable_def)
    from assms(7) Request have "list_all (\<lambda>s. 0 \<le> s \<and> s < uint32_max) (request_seeds r)"
      by (simp add: seeds_below_max_def seeds_of_def)
    from adjust_request_adjusted[OF img this, of c attempt] obtain r' where
      r': "adjust_request_for_retry c r attempt = Inr r'"
      "request_adjusted (retry_schedule_offset c) attempt r r'" by blast
    show ?thesis
      using once assms(4,5) img r' unfolding Request
      by (intro exI[of _ "Request r'"]) (simp add: retry_adjusted_def)
  next
    case (ChainRequest ch)
    from assms(7) ChainRequest have
      "list_all (\<lambda>s. 0 \<le> s \<and> s < uint32_max)
         (concat (map (\<lambda>st. request_seeds (stage_request st)) (stages ch)))"
      by (simp add: seeds_below_max_def seeds_of_def)
    from adjust_stages_adjusted[OF this, of c attempt] obtain sts' where
      s': "adjust_stages c attempt (stages ch) = (None, sts')"
      "list_all2 (stage_adjusted (retry_schedule_offset c) attempt) (stages ch) sts'" by blast
    show ?thesis
      using once assms(4,5) s' unfolding ChainRequest
      by (intro exI[of _ "ChainRequest (ch\<lparr>stages := sts'\<rparr>)"]) (simp add: retry_adjusted_def)
  qed
  then obtain rq' where rq': "retry_adjusted (retry_schedule_offset c) attempt rq rq'"
    "run_attempts c ep (attempt # next_attempt # rest) rq res w
       = run_attempts c ep (next_attempt # rest) rq' (Some (process_response resp)) ?w1"
    by blast
  have addr': "addressed ep rq'" using retry_adjusted_addressed[OF rq'(1) assms(1)] .
  from run_attempts_first_call[OF addr', of c next_attempt rest "Some (process_response resp)" ?w1]
  obtain later where
    "events (snd (snd (run_attempts c ep (next_attempt # rest) rq' (Some (process_response resp)) ?w1)))
       = events ?w1 @ Call rq' (fst (stub_call ep rq' (server ?w1))) # later" by blast
  then have "events (snd (snd (run_attempts c ep (attempt # next_attempt # rest) rq res w)))
       = events w @ [Call rq (Inr resp), Call rq' (fst (stub_call ep rq' s1))] @ later"
    unfolding rq'(2) by simp
  with rq' show ?thesis by blast
qed

lemma censor_generate_attempt:
  "engine_id r = ''stable-diffusion-v1-5'' \<Longrightarrow>
   attempt_once (generate_endpoint retry_twice_context) (Request r) w
     = (Obfuscated blocked (process_response censored),
        w\<lparr>server := Suc (server w), events := events w @ [Call (Request r) (Inr censored)]\<rparr>)"
  by (simp add: attempt_once_def dispatch_def generate_endpoint_def retry_twice_context_def
        retrying_context_def default_context_def censor_stub_def obfuscation_censored)

lemma retry_twice_facts:
  "max_retries retry_twice_context = 2"
  "retry_obfuscation retry_twice_context"
  "retry_schedule_offset retry_twice_context = 1 / 10"
  by (simp_all add: retry_twice_context_def retrying_context_def default_context_def)

lemma py_range_3: "py_range (2 + 1) = [0, 1, 2]"
  by (simp add: py_range_def eval_nat_numeral)

text \<open>
  C3, as stated, fails for a schedule start that is not the first step parameter's: with
  a maximum of two retries and a service that obfuscates every answer, a request with two
  step parameters is sent three times; the third request has its seed incremented twice
  and its first schedule start shifted from 0.95 to 1, while the start 0.5 of the second
  step parameter is still 0.5 and not \<open>clamp01 (0.5 + 0.1) = 0.6\<close>.
\<close>

theorem later_start_counterexample:
  "run_request retry_twice_context (generate_endpoint retry_twice_context)
       (Request two_start_request) fresh_remote
     = (Inl (ClassifierException blocked),
        Request (two_start_request\<lparr>image := Some (two_start_image
           \<lparr>seed := [43],
            parameters :=
              [first_step\<lparr>schedule := Some \<lparr>sched_start = Some 1, sched_end = None\<rparr>\<rparr>,
               second_step]\<rparr>)\<rparr>),
        \<lparr>server = 3,
         events =
           [Call (Request two_start_request) (Inr censored),
            Call (Request (two_start_request\<lparr>image := Some (two_start_image\<lparr>seed := [42]\<rparr>)\<rparr>))
              (Inr censored),
            Call (Request (two_start_request\<lparr>image := Some (two_start_image
                    \<lparr>seed := [43],
                     parameters :=
                       [first_step\<lparr>schedule := Some \<lparr>sched_start = Some 1, sched_end = None\<rparr>\<rparr>,
                        second_step]\<rparr>)\<rparr>))
              (Inr censored)]\<rparr>)
   \<and> schedule second_step = Some \<lparr>sched_start = Some (1 / 2), sched_end = None\<rparr>
   \<and> clamp01 (1 / 2 + retry_schedule_offset retry_twice_context) = 6 / 10"
proof -
  have eng: "engine_id (two_start_request\<lparr>image := i\<rparr>) = ''stable-diffusion-v1-5''" for i
    by (simp add: two_start_request_def)
  have eng0: "engine_id two_start_request = ''stable-diffusion-v1-5''"
    by (simp add: two_start_request_def)
  have img: "image two_start_request = Some two_start_image"
    by (simp add: two_start_request_def)
  have a0: "adjust_image retry_twice_context two_start_image 0
              = Inr (two_start_image\<lparr>seed := [42]\<rparr>)"
    by (simp add: adjust_image_def two_start_image_def uint32_value_def uint32_max_def)
  have a1: "adjust_image retry_twice_context (two_start_image\<lparr>seed := [42]\<rparr>) (Suc 0)
              = Inr (two_start_image
                      \<lparr>seed := [43],
                       parameters :=
                         [first_step\<lparr>schedule := Some \<lparr>sched_start = Some 1, sched_end = None\<rparr>\<rparr>,
                          second_step]\<rparr>)"
    by (simp add: adjust_image_def two_start_image_def uint32_value_def uint32_max_def
          first_step_def shift_start_def retry_twice_facts)
  have run: "run_request retry_twice_context (generate_endpoint retry_twice_context)
       (Request two_start_request) fresh_remote
     = (Inl (ClassifierException blocked),
        Request (two_start_request\<lparr>image := Some (two_start_image
           \<lparr>seed := [43],
            parameters :=
              [first_step\<lparr>schedule := Some \<lparr>sched_start = Some 1, sched_end = None\<rparr>\<rparr>,
               second_step]\<rparr>)\<rparr>),
        \<lparr>server = 3,
         events =
           [Call (Request two_start_request) (Inr censored),
            Call (Request (two_start_request\<lparr>image := Some (two_start_image\<lparr>seed := [42]\<rparr>)\<rparr>))
              (Inr censored),
            Call (Request (two_start_request\<lparr>image := Some (two_start_image
                    \<lparr>seed := [43],
                     parameters :=
                       [first_step\<lparr>schedule := Some \<lparr>sched_start = Some 1, sched_end = None\<rparr>\<rparr>,
                        second_step]\<rparr>)\<rparr>))
              (Inr censored)]\<rparr>)"
    unfolding run_request_def retry_twice_facts py_range_3
    by (simp add: censor_generate_attempt eng eng0 img retry_twice_facts
          adjust_request_for_retry_def a0 a1 fresh_remote_def)
  show ?thesis
    unfolding run
    by (simp add: second_step_def clamp01_def retry_twice_facts)
qed

text \<open>
  A seed at the largest 32-bit value cannot be incremented: the adjustment raises and the
  run ends with that exception after one call.
\<close>

lemma last_seed_raises:
  "run_request retry_twice_context (generate_endpoint retry_twice_context)
       (Request last_seed_request) fresh_remote
     = (Inl (ValueError ''Value out of range''), Request last_seed_request,
        \<lparr>server = 1, events = [Call (Request last_seed_request) (Inr censored)]\<rparr>)"
proof -
  have eng: "engine_id last_seed_request = ''stable-diffusion-v1-5''"
    by (simp add: last_seed_request_def two_start_request_def)
  have adj: "adjust_request_for_retry retry_twice_context last_seed_request 0
               = Inl (ValueError ''Value out of range'')"
    by (simp add: adjust_request_for_retry_def adjust_image_def last_seed_request_def
          uint32_value_def uint32_max_def)
  have img: "image last_seed_request \<noteq> None" by (simp add: last_seed_request_def)
  show ?thesis
    unfolding run_request_def retry_twice_facts py_range_3
    by (simp add: censor_generate_attempt eng adj img retry_twice_facts fresh_remote_def)
qed

theorem obfuscation_retry_adjusts_witness:
  "addressed (generate_endpoint retry_twice_context) (Request two_start_request)
   \<and> stub_call (generate_endpoint retry_twice_context) (Request two_start_request)
       (server fresh_remote) = (Inr censored, 1)
   \<and> obfuscation (process_response censored) = Some blocked
   \<and> int 1 \<noteq> max_retries retry_twice_context
   \<and> retry_obfuscation retry_twice_context
   \<and> retriable (Request two_start_request)
   \<and> seeds_below_max (Request two_start_request)
   \<and> (\<exists>rq' later.
         retry_adjusted (1 / 10) 1 (Request two_start_request) rq'
       \<and> run_attempts retry_twice_context (generate_endpoint retry_twice_context) [1, 2]
             (Request two_start_request) None fresh_remote
           = run_attempts retry_twice_context (generate_endpoint retry_twice_context) [2] rq'
               (Some (process_response censored))
               \<lparr>server = 1, events = [Call (Request two_start_request) (Inr censored)]\<rparr>
       \<and> events (snd (snd (run_attempts retry_twice_context
             (generate_endpoint retry_twice_context) [1, 2] (Request two_start_request) None
             fresh_remote)))
           = [Call (Request two_start_request) (Inr censored),
              Call rq' (fst (stub_call (generate_endpoint retry_twice_context) rq' 1))] @ later)"
proof -
  have h1: "addressed (generate_endpoint retry_twice_context) (Request two_start_request)"
    by (simp add: addressed_def generate_endpoint_def two_start_request_def)
  have h2: "stub_call (generate_endpoint retry_twice_context) (Request two_start_request)
       (server fresh_remote) = (Inr censored, 1)"
    by (simp add: stub_call_def generate_endpoint_def retry_twice_context_def
          retrying_context_def default_context_def censor_stub_def fresh_remote_def)
  have h4: "int 1 \<noteq> max_retries retry_twice_context" by (simp add: retry_twice_facts)
  have h6: "retriable (Request two_start_request)"
    by (simp add: retriable_def two_start_request_def)
  have h7: "seeds_below_max (Request two_start_request)"
    by (simp add: seeds_below_max_def seeds_of_def request_seeds_def two_start_request_def
          two_start_image_def uint32_max_def)
  have w1: "fresh_remote\<lparr>server := 1,
               events := [Call (Request two_start_request) (Inr censored)]\<rparr>
            = \<lparr>server = 1, events = [Call (Request two_start_request) (Inr censored)]\<rparr>"
    by (simp add: fresh_remote_def)
  have ev: "events fresh_remote = []" by (simp add: fresh_remote_def)
  have c: "\<exists>rq' later.
         retry_adjusted (1 / 10) 1 (Request two_start_request) rq'
       \<and> run_attempts retry_twice_context (generate_endpoint retry_twice_context) [1, 2]
             (Request two_start_request) None fresh_remote
           = run_attempts retry_twice_context (generate_endpoint retry_twice_context) [2] rq'
               (Some (process_response censored))
               \<lparr>server = 1, events = [Call (Request two_start_request) (Inr censored)]\<rparr>
       \<and> events (snd (snd (run_attempts retry_twice_context
             (generate_endpoint retry_twice_context) [1, 2] (Request two_start_request) None
             fresh_remote)))
           = [Call (Request two_start_request) (Inr censored),
              Call rq' (fst (stub_call (generate_endpoint retry_twice_context) rq' 1))] @ later"
    using obfuscation_retry_adjusts[OF h1 h2 obfuscation_censored h4 retry_twice_facts(2) h6 h7,
        of 2 "[]" None]
    unfolding ev retry_twice_facts(3) append_Nil w1 .
  show ?thesis
    by (intro conjI; (rule h1 h2 obfuscation_censored h4 retry_twice_facts(2) h6 h7 c))
qed

lemma censor_attempt:
  "attempt_once (transform_endpoint (retrying_context censor_stub)) (ChainRequest ch) w
     = (Obfuscated blocked (process_response censored),
        w\<lparr>server := Suc (server w),
          events := events w @ [Call (ChainRequest ch) (Inr censored)]\<rparr>)"
  by (simp add: attempt_once_def dispatch_def transform_endpoint_def retrying_context_def
        default_context_def censor_stub_def obfuscation_censored)

lemma imageless_request_raises_at_once:
  assumes "attempt_once ep (Request rq1) w = (Obfuscated cl r, w1)"
      and "image rq1 = None"
  shows "run_attempts c ep (attempt # rest) (Request rq1) res w
           = (Inl (ClassifierException cl), Request rq1, w1)"
  using assms by simp

lemma py_range_6: "py_range (5 + 1) = [0, 1, 2, 3, 4, 5]"
  by (simp add: py_range_def eval_nat_numeral)

lemma warp_chain_no_image:
  "adjust_stages c k (stages warp_chain) = (None, stages warp_chain)"
  by (simp add: warp_chain_def)

lemma warp_chain_eta: "warp_chain\<lparr>stages := stages warp_chain\<rparr> = warp_chain"
  by simp

text \<open>
  C4 (no-mutation terminal case). The single-request path raises at once when the request
  has no image parameters (\<open>imageless_request_raises_at_once\<close>). The chain path has no
  such exit: a chain none of whose stages carries image parameters is sent again
  unchanged. With retry-on-obfuscation enabled and the default maximum of 5, the
  two-stage chain of \<^verbatim>\<open>transform_3d\<close> is submitted six times against a service
  that obfuscates every answer, and the classifier failure is raised only after the sixth.
\<close>

theorem imageless_chain_resubmitted:
  "run_request (retrying_context censor_stub) (transform_endpoint (retrying_context censor_stub))
       (ChainRequest warp_chain) fresh_remote
     = (Inl (ClassifierException blocked), ChainRequest warp_chain,
        \<lparr>server = 6,
         events = replicate 6 (Call (ChainRequest warp_chain) (Inr censored))\<rparr>)"
proof -
  have cfg: "max_retries (retrying_context censor_stub) = 5"
    "retry_obfuscation (retrying_context censor_stub)"
    by (simp_all add: retrying_context_def default_context_def)
  show ?thesis
    unfolding run_request_def cfg py_range_6
    by (simp add: censor_attempt cfg warp_chain_no_image fresh_remote_def eval_nat_numeral)
qed

theorem imageless_chain_resubmitted_witness:
  "transform_3d (retrying_context censor_stub) [Picture ''PNG''] (DepthCalc 0) (Resample 0) None
       fresh_remote
     = (Inl (ClassifierException blocked),
        \<lparr>server = 6,
         events = replicate 6 (Call (ChainRequest warp_chain) (Inr censored))\<rparr>)"
proof -
  have chain: "\<lparr>request_id = op_id (Resample 0) @ ''_3d_chain'',
                stages =
                  [\<lparr>stage_id = ''depth_calc'',
                    stage_request =
                      \<lparr>engine_id = ep_engine_id (transform_endpoint (retrying_context censor_stub)),
                       requested_type = Some ARTIFACT_TENSOR,
                       prompts = take 1 [image_to_prompt ''PNG'' ARTIFACT_IMAGE], image = None,
                       transform = Some (DepthCalc 0), asset = None, extras = None\<rparr>,
                    stage_on_status =
                      [\<lparr>status_action = [STAGE_ACTION_PASS],
                        status_target = Some (op_id (Resample 0))\<rparr>]\<rparr>,
                   return_stage (op_id (Resample 0))
                     \<lparr>engine_id = ep_engine_id (transform_endpoint (retrying_context censor_stub)),
                      requested_type = None,
                      prompts = [image_to_prompt ''PNG'' ARTIFACT_IMAGE], image = None,
                      transform = Some (Resample 0), asset = None,
                      extras = Some (case None of None \<Rightarrow> [] | Some l \<Rightarrow> l)\<rparr>]\<rparr>
               = warp_chain"
    by (simp add: warp_chain_def op_id_def return_stage_def transform_endpoint_def png_prompt_def)
  have mode: "\<not> debug_no_chains (retrying_context censor_stub)"
    by (simp add: retrying_context_def default_context_def)
  have asserted: "images_asserted [Picture ''PNG'']" "image_prompts [Picture ''PNG'']
      = Inr [image_to_prompt ''PNG'' ARTIFACT_IMAGE]"
    by (simp_all add: images_asserted_def image_prompt_def)
  show ?thesis
    unfolding transform_3d_def Let_def
    using imageless_chain_resubmitted
    by (simp only: mode asserted chain if_False if_True not_True_eq_False sum.case prod.case)
qed

section \<open>Properties of the storage layer\<close>

lemma derived_asset_id_after_last:
  "derived_asset_id s = rev (takeWhile (\<lambda>x. x \<noteq> CHR ''/'') (rev s))"
proof (cases "CHR ''/'' \<in> set s")
  case True
  then show ?thesis by (simp add: derived_asset_id_def rsplit1_def)
next
  case False
  then have tw: "takeWhile (\<lambda>x. x \<noteq> CHR ''/'') (rev s) = rev s"
    by (intro takeWhile_eq_all_conv[THEN iffD2]) auto
  from False show ?thesis by (simp add: derived_asset_id_def rsplit1_def tw)
qed

lemma derived_asset_id_no_slash: "CHR ''/'' \<notin> set (derived_asset_id s)"
  unfolding derived_asset_id_after_last
  by (auto dest: set_takeWhileD)

lemma derived_asset_id_whole: "CHR ''/'' \<notin> set s \<Longrightarrow> derived_asset_id s = s"
  unfolding derived_asset_id_after_last
  by (subst takeWhile_eq_all_conv[THEN iffD2]) auto

lemma derived_asset_id_suffix:
  assumes "CHR ''/'' \<in> set s"
  shows "\<exists>pre. s = pre @ CHR ''/'' # derived_asset_id s"
proof -
  let ?P = "\<lambda>x. x \<noteq> CHR ''/''"
  have "rev s = takeWhile ?P (rev s) @ dropWhile ?P (rev s)" by simp
  moreover from assms have "dropWhile ?P (rev s) \<noteq> []" by (auto simp: dropWhile_eq_Nil_conv)
  then obtain y ys where d: "dropWhile ?P (rev s) = y # ys" by (cases "dropWhile ?P (rev s)") auto
  then have "y = CHR ''/''" using hd_dropWhile[of ?P "rev s"] by force
  ultimately have "rev s = takeWhile ?P (rev s) @ CHR ''/'' # ys" using d by simp
  then have "s = rev ys @ CHR ''/'' # rev (takeWhile ?P (rev s))"
    by (metis rev_append rev.simps(2) rev_rev_ident append.assoc append_Cons append_Nil)
  then show ?thesis unfolding derived_asset_id_after_last by blast
qed

lemma fan_out_two:
  assumes "primary p" "\<not> primary_fs p" "\<not> primary m" "primary_fs m"
      and "put p None w = (Inr r1, w1)"
  shows "fan_out_put put [p, m] [] None None w =
           (case put m (Some (derived_asset_id r1)) w1 of
              (Inl e, w2) \<Rightarrow> (Inl e, w2)
            | (Inr r2, w2) \<Rightarrow> (Inr ([derived_asset_id r1], Some (derived_asset_id r1), Some r2), w2))"
  using assms by (simp split: prod.splits sum.splits)

lemma add_asset_metadata_saved:
  "index_file (add_asset_metadata pid aid mime fname key ss)
     = Some (metadata_index (add_asset_metadata pid aid mime fname key ss))"
  by (simp add: add_asset_metadata_def save_metadata_index_def Let_def)

lemma add_asset_metadata_backing:
  "backing (add_asset_metadata pid aid mime fname key ss) = backing ss"
  by (simp add: add_asset_metadata_def save_metadata_index_def Let_def)

lemma add_asset_metadata_entry:
  "\<exists>sub. metadata_index (add_asset_metadata pid aid mime fname None ss) pid = Some sub
         \<and> sub aid = Some (AssetEntry \<lparr>mime_type = mime, filename = fname\<rparr>)
         \<and> (\<forall>k. k \<noteq> aid \<longrightarrow>
               sub k = (case metadata_index ss pid of None \<Rightarrow> None | Some old \<Rightarrow> old k))"
  by (simp add: add_asset_metadata_def save_metadata_index_def Let_def split: option.splits)

lemma add_asset_metadata_others:
  "q \<noteq> pid \<Longrightarrow> metadata_index (add_asset_metadata pid aid mime fname key ss) q = metadata_index ss q"
  by (simp add: add_asset_metadata_def save_metadata_index_def Let_def)

text \<open>
  C5 (identifier propagation). With the primary backend registered first and the
  primary_fs mirror second, when both writes of \<^verbatim>\<open>Project.put_image_asset\<close>
  succeed, the mirror's write being the one made with the asset id derived from the
  primary's returned text, the call returns that id, the project's part of the metadata
  index maps the id to the mime type \<open>image/png\<close> and the file name the mirror returned
  and is otherwise what it was, other projects are untouched and the index file is
  rewritten. The derived id is the text after the last \<open>/\<close> of the primary's answer,
  or the whole answer when it has no \<open>/\<close>. The statement holds for any mirror, so the
  mirror's behaviour on any other \<^verbatim>\<open>asset_id\<close> argument does not matter: it is
  called with the primary's id.
\<close>

theorem identifier_propagation:
  assumes "primary p" "\<not> primary_fs p" "\<not> primary m" "primary_fs m"
      and "put_image_asset p proj img use None (backing ss) = (Inr r1, w1)"
      and "put_image_asset m proj img use (Some (derived_asset_id r1)) w1 = (Inr r2, w2)"
  shows "\<exists>ss' sub.
           project_put_image_asset [p, m] proj img use ss = (Inr [derived_asset_id r1], ss')
         \<and> backing ss' = w2
         \<and> metadata_index ss' (proj_id proj) = Some sub
         \<and> sub (Some (derived_asset_id r1))
             = Some (AssetEntry \<lparr>mime_type = ''image/png'', filename = Some r2\<rparr>)
         \<and> (\<forall>k. k \<noteq> Some (derived_asset_id r1) \<longrightarrow>
               sub k = (case metadata_index ss (proj_id proj) of
                          None \<Rightarrow> None | Some old \<Rightarrow> old k))
         \<and> (\<forall>q. q \<noteq> proj_id proj \<longrightarrow> metadata_index ss' q = metadata_index ss q)
         \<and> index_file ss' = Some (metadata_index ss')
         \<and> CHR ''/'' \<notin> set (derived_asset_id r1)
         \<and> (if CHR ''/'' \<in> set r1 then \<exists>pre. r1 = pre @ CHR ''/'' # derived_asset_id r1
             else derived_asset_id r1 = r1)"
proof -
  let ?put = "\<lambda>backend asset_id. put_image_asset backend proj img use asset_id"
  let ?id = "derived_asset_id r1"
  let ?ss' = "add_asset_metadata (proj_id proj) (Some ?id) ''image/png'' (Some r2) None
                (ss\<lparr>backing := w2\<rparr>)"
  have loop: "fan_out_put ?put [p, m] [] None None (backing ss)
                = (Inr ([?id], Some ?id, Some r2), w2)"
    using fan_out_two[of p m ?put "backing ss" r1 w1] assms by simp
  then have run: "project_put_image_asset [p, m] proj img use ss = (Inr [?id], ?ss')"
    by (simp add: project_put_image_asset_def)
  obtain sub where sub: "metadata_index ?ss' (proj_id proj) = Some sub"
      "sub (Some ?id) = Some (AssetEntry \<lparr>mime_type = ''image/png'', filename = Some r2\<rparr>)"
      "\<forall>k. k \<noteq> Some ?id \<longrightarrow>
         sub k = (case metadata_index (ss\<lparr>backing := w2\<rparr>) (proj_id proj) of
                    None \<Rightarrow> None | Some old \<Rightarrow> old k)"
    using add_asset_metadata_entry[of "proj_id proj" "Some ?id" "''image/png''" "Some r2"
            "ss\<lparr>backing := w2\<rparr>"] by blast
  have others: "\<forall>q. q \<noteq> proj_id proj \<longrightarrow> metadata_index ?ss' q = metadata_index ss q"
    by (simp add: add_asset_metadata_others)
  have shape: "if CHR ''/'' \<in> set r1 then \<exists>pre. r1 = pre @ CHR ''/'' # ?id else ?id = r1"
    using derived_asset_id_suffix[of r1] derived_asset_id_whole[of r1] by simp
  show ?thesis
    apply (rule exI[of _ ?ss'])
    apply (rule exI[of _ sub])
    using run sub others shape
    by (simp add: add_asset_metadata_saved add_asset_metadata_backing derived_asset_id_no_slash)
qed

lemma py_range_default: "py_range (max_retries (default_context st) + 1) = [0, 1, 2, 3, 4, 5]"
  by (simp add: default_context_def py_range_def eval_nat_numeral)

lemma stored_answer_decoded:
  "obfuscation (process_response stored_answer) = None"
  "process_response stored_answer ARTIFACT_TEXT = Some [Text ''proj-1/img-7'']"
  "process_response stored_answer ARTIFACT_IMAGE = Some [Picture ''PNG'']"
  by (simp_all add: process_response_def stored_answer_def add_artifact_def obfuscation_def
        empty_artifact_def)

lemma asset_run:
  "engine_id rq = ''asset-service'' \<Longrightarrow>
   run_request (default_context asset_stub) (asset_endpoint (default_context asset_stub))
       (Request rq) r
     = (Inr (process_response stored_answer), Request rq,
        r\<lparr>server := Suc (server r), events := events r @ [Call (Request rq) (Inr stored_answer)]\<rparr>)"
  unfolding run_request_def py_range_default
  by (simp add: attempt_once_def dispatch_def asset_endpoint_def default_context_def
        asset_stub_def stored_answer_decoded)

lemma asset_engine: "ep_engine_id (asset_endpoint c) = ''asset-service''"
  by (simp add: asset_endpoint_def)

lemma remote_put:
  "asset_put_image_asset (default_context asset_stub) proj1 ''PNG'' ASSET_USE_PROJECT aid store0
     = (Inr ''proj-1/img-7'', store0\<lparr>remote := stored_remote\<rparr>)"
  by (simp add: asset_put_image_asset_def asset_call_def asset_run asset_request_def
        asset_engine stored_answer_decoded store0_def fresh_remote_def stored_remote_def
        put_request_def proj1_def)

lemma derived_sample: "derived_asset_id ''proj-1/img-7'' = ''img-7''"
  by (simp add: derived_asset_id_def rsplit1_def)

lemma local_put:
  "local_put_image_asset False ''projects'' proj1 ''PNG'' ASSET_USE_PROJECT (Some ''img-7'')
       (store0\<lparr>remote := stored_remote\<rparr>)
     = (Inr ''img-7'',
        store0\<lparr>remote := stored_remote, files := [(''projects/proj-1/img-7.png'', ''PNG'')]\<rparr>)"
  by (simp add: local_put_image_asset_def choose_filename_def write_file_def
        get_path_for_asset_def path_join_def image_to_png_bytes_def store0_def proj1_def)

theorem identifier_propagation_witness:
  "\<exists>ss' sub.
     project_put_image_asset (init_backends (default_context asset_stub)) proj1 ''PNG''
         ASSET_USE_PROJECT session0
       = (Inr [''img-7''], ss')
     \<and> files (backing ss') = [(''projects/proj-1/img-7.png'', ''PNG'')]
     \<and> calls_of (events (remote (backing ss'))) = [Request put_request]
     \<and> metadata_index ss' ''proj-1'' = Some sub
     \<and> sub (Some ''img-7'')
         = Some (AssetEntry \<lparr>mime_type = ''image/png'', filename = Some ''img-7''\<rparr>)
     \<and> index_file ss' = Some (metadata_index ss')"
proof -
  let ?p = "AssetServiceBackend (default_context asset_stub) True"
  let ?m = "LocalFileBackend False True ''projects'' :: nat store storage_backend"
  have flags: "primary ?p" "\<not> primary_fs ?p" "\<not> primary ?m" "primary_fs ?m"
    by (simp_all add: AssetServiceBackend_def LocalFileBackend_def)
  have h1: "put_image_asset ?p proj1 ''PNG'' ASSET_USE_PROJECT None (backing session0)
              = (Inr ''proj-1/img-7'', store0\<lparr>remote := stored_remote\<rparr>)"
    by (simp add: AssetServiceBackend_def remote_put session0_def)
  have h2: "put_image_asset ?m proj1 ''PNG'' ASSET_USE_PROJECT
              (Some (derived_asset_id ''proj-1/img-7'')) (store0\<lparr>remote := stored_remote\<rparr>)
              = (Inr ''img-7'',
                 store0\<lparr>remote := stored_remote,
                        files := [(''projects/proj-1/img-7.png'', ''PNG'')]\<rparr>)"
    by (simp add: LocalFileBackend_def derived_sample local_put)
  show ?thesis
    using identifier_propagation [OF flags h1 h2]
    by (auto simp: init_backends_def derived_sample proj1_def stored_remote_def)
qed

lemma fan_out_mirror_fails:
  assumes "primary p" "\<not> primary_fs p" "\<not> primary m" "primary_fs m"
      and "put p None w = (Inr r1, w1)"
      and "put m (Some (derived_asset_id r1)) w1 = (Inl e, w2)"
  shows "fan_out_put put [p, m] [] None None w = (Inl e, w2)"
  using assms by (simp add: fan_out_two)

lemma primary_first_image:
  "primary p \<Longrightarrow>
   project_get_image_asset (p # rest) proj asset_id use ss
     = on_backing (get_image_asset p proj asset_id use) ss"
  by simp

lemma remote_put_readonly:
  "asset_put_image_asset (default_context asset_stub) proj1 ''PNG'' ASSET_USE_PROJECT aid
       (backing readonly_session)
     = (Inr ''proj-1/img-7'', backing readonly_session\<lparr>remote := stored_remote\<rparr>)"
  by (simp add: asset_put_image_asset_def asset_call_def asset_run asset_request_def
        asset_engine stored_answer_decoded store0_def fresh_remote_def stored_remote_def
        put_request_def proj1_def readonly_session_def session0_def)

lemma local_put_readonly:
  "local_put_image_asset False ''projects'' proj1 ''PNG'' ASSET_USE_PROJECT (Some ''img-7'')
       (backing readonly_session\<lparr>remote := stored_remote\<rparr>)
     = (Inl (OSError ''projects/proj-1/img-7.png''),
        backing readonly_session\<lparr>remote := stored_remote\<rparr>)"
  by (simp add: local_put_image_asset_def choose_filename_def write_file_def
        get_path_for_asset_def path_join_def image_to_png_bytes_def store0_def proj1_def
        readonly_session_def session0_def)

lemma readonly_put:
  "project_put_image_asset (init_backends (default_context asset_stub)) proj1 ''PNG''
       ASSET_USE_PROJECT readonly_session
     = (Inl (OSError ''projects/proj-1/img-7.png''),
        readonly_session\<lparr>backing := backing readonly_session\<lparr>remote := stored_remote\<rparr>\<rparr>)"
  by (simp add: project_put_image_asset_def init_backends_def AssetServiceBackend_def
        LocalFileBackend_def remote_put_readonly derived_sample local_put_readonly)

text \<open>
  C6, as stated, fails: in the default configuration the remote primary stores the picture
  and answers with its id, the local mirror cannot write its file, and afterwards the
  metadata index (and its file) has no entry for the project at all.
\<close>

theorem partial_mirror_counterexample:
  "fst (project_put_image_asset (init_backends (default_context asset_stub)) proj1 ''PNG''
          ASSET_USE_PROJECT readonly_session)
     = Inl (OSError ''projects/proj-1/img-7.png'')
   \<and> events (remote (backing (snd (project_put_image_asset
          (init_backends (default_context asset_stub)) proj1 ''PNG'' ASSET_USE_PROJECT
          readonly_session))))
     = [Call (Request put_request) (Inr stored_answer)]
   \<and> process_response stored_answer ARTIFACT_TEXT = Some [Text ''proj-1/img-7'']
   \<and> metadata_index (snd (project_put_image_asset
          (init_backends (default_context asset_stub)) proj1 ''PNG'' ASSET_USE_PROJECT
          readonly_session)) ''proj-1''
     = None
   \<and> index_file (snd (project_put_image_asset
          (init_backends (default_context asset_stub)) proj1 ''PNG'' ASSET_USE_PROJECT
          readonly_session))
     = None"
  unfolding readonly_put
  by (simp add: stored_answer_decoded stored_remote_def readonly_session_def session0_def)

text \<open>
  C6 (partial mirror failure), amended. When the mirror's write of an image or a video
  fails after the primary's write succeeded, the mirror's exception reaches the caller as
  it is, nothing is rolled back (the backends are left in the state the primary's write
  and the failed mirror write produced), and the metadata index and its file are exactly
  what they were before the call: \<^verbatim>\<open>add_asset_metadata\<close> runs only after the
  loop over all backends, so the new asset id is not recorded. A later read is served by
  the primary backend alone, from that state.
\<close>

theorem partial_mirror_failure:
  assumes "primary p" "\<not> primary_fs p" "\<not> primary m" "primary_fs m"
  shows "(put_image_asset p proj img use None (backing ss) = (Inr r1, w1)
          \<and> put_image_asset m proj img use (Some (derived_asset_id r1)) w1 = (Inl e, w2)
          \<longrightarrow> project_put_image_asset [p, m] proj img use ss = (Inl e, ss\<lparr>backing := w2\<rparr>))
       \<and> (put_video_asset p proj video_path None (backing ss) = (Inr r1, w1)
          \<and> put_video_asset m proj video_path (Some (derived_asset_id r1)) w1 = (Inl e, w2)
          \<longrightarrow> project_put_video_asset [p, m] proj video_path ss = (Inl e, ss\<lparr>backing := w2\<rparr>))
       \<and> metadata_index (ss\<lparr>backing := w2\<rparr>) = metadata_index ss
       \<and> index_file (ss\<lparr>backing := w2\<rparr>) = index_file ss
       \<and> project_get_image_asset [p, m] proj asset_id use' (ss\<lparr>backing := w2\<rparr>)
           = on_backing (get_image_asset p proj asset_id use') (ss\<lparr>backing := w2\<rparr>)"
proof -
  have img: "put_image_asset p proj img use None (backing ss) = (Inr r1, w1)
          \<and> put_image_asset m proj img use (Some (derived_asset_id r1)) w1 = (Inl e, w2)
          \<longrightarrow> project_put_image_asset [p, m] proj img use ss = (Inl e, ss\<lparr>backing := w2\<rparr>)"
    using fan_out_mirror_fails[OF assms,
            of "\<lambda>backend asset_id. put_image_asset backend proj img use asset_id" "backing ss" r1 w1 e w2]
    by (simp add: project_put_image_asset_def)
  have vid: "put_video_asset p proj video_path None (backing ss) = (Inr r1, w1)
          \<and> put_video_asset m proj video_path (Some (derived_asset_id r1)) w1 = (Inl e, w2)
          \<longrightarrow> project_put_video_asset [p, m] proj video_path ss = (Inl e, ss\<lparr>backing := w2\<rparr>)"
    using fan_out_mirror_fails[OF assms,
            of "\<lambda>backend asset_id. put_video_asset backend proj video_path asset_id" "backing ss" r1 w1 e w2]
    by (simp add: project_put_video_asset_def)
  show ?thesis using img vid assms(1) by simp
qed

theorem partial_mirror_failure_witness:
  "project_put_image_asset (init_backends (default_context asset_stub)) proj1 ''PNG''
       ASSET_USE_PROJECT readonly_session
     = (Inl (OSError ''projects/proj-1/img-7.png''),
        readonly_session\<lparr>backing := backing readonly_session\<lparr>remote := stored_remote\<rparr>\<rparr>)
   \<and> metadata_index
         (readonly_session\<lparr>backing := backing readonly_session\<lparr>remote := stored_remote\<rparr>\<rparr>)
       = Map.empty
   \<and> project_get_image_asset (init_backends (default_context asset_stub)) proj1 ''img-7''
         ASSET_USE_PROJECT
         (readonly_session\<lparr>backing := backing readonly_session\<lparr>remote := stored_remote\<rparr>\<rparr>)
       = on_backing (asset_get_image_asset (default_context asset_stub) proj1 ''img-7''
                       ASSET_USE_PROJECT)
           (readonly_session\<lparr>backing := backing readonly_session\<lparr>remote := stored_remote\<rparr>\<rparr>)"
proof -
  let ?p = "AssetServiceBackend (default_context asset_stub) True"
  let ?m = "LocalFileBackend False True ''projects'' :: nat store storage_backend"
  have flags: "primary ?p" "\<not> primary_fs ?p" "\<not> primary ?m" "primary_fs ?m"
    by (simp_all add: AssetServiceBackend_def LocalFileBackend_def)
  have h1: "put_image_asset ?p proj1 ''PNG'' ASSET_USE_PROJECT None (backing readonly_session)
              = (Inr ''proj-1/img-7'', backing readonly_session\<lparr>remote := stored_remote\<rparr>)"
    by (simp add: AssetServiceBackend_def remote_put_readonly)
  have h2: "put_image_asset ?m proj1 ''PNG'' ASSET_USE_PROJECT
              (Some (derived_asset_id ''proj-1/img-7''))
              (backing readonly_session\<lparr>remote := stored_remote\<rparr>)
              = (Inl (OSError ''projects/proj-1/img-7.png''),
                 backing readonly_session\<lparr>remote := stored_remote\<rparr>)"
    by (simp add: LocalFileBackend_def derived_sample local_put_readonly)
  have idx: "metadata_index readonly_session = Map.empty"
    by (simp add: readonly_session_def session0_def)
  have getter: "get_image_asset ?p = asset_get_image_asset (default_context asset_stub)"
    by (simp add: AssetServiceBackend_def)
  show ?thesis
    using partial_mirror_failure [OF flags, of proj1 "''PNG''" ASSET_USE_PROJECT readonly_session
            "''proj-1/img-7''" "backing readonly_session\<lparr>remote := stored_remote\<rparr>"
            "OSError ''projects/proj-1/img-7.png''"
            "backing readonly_session\<lparr>remote := stored_remote\<rparr>" _ "''img-7''" ASSET_USE_PROJECT]
      h1 h2 idx getter
    by (simp add: init_backends_def)
qed

lemma read_image_primary:
  "find primary backends = Some b \<Longrightarrow>
   project_get_image_asset backends proj asset_id use ss
     = on_backing (get_image_asset b proj asset_id use) ss"
  by (induction backends) (auto split: if_splits)

lemma read_video_primary:
  "find primary backends = Some b \<Longrightarrow>
   project_get_video_asset backends proj asset_id use ss
     = on_backing (get_video_asset b proj asset_id use) ss"
  by (induction backends) (auto split: if_splits)

lemma read_settings_primary:
  "find primary backends = Some b \<Longrightarrow>
   project_get_settings backends proj ss
     = (case metadata_index ss (proj_id proj) of
          None \<Rightarrow> (Inl (KeyError (proj_id proj)), ss)
        | Some sub \<Rightarrow>
            (case sub (Some ''project_file_id'') of
               None \<Rightarrow> (Inl (KeyError ''project_file_id''), ss)
             | Some entry \<Rightarrow> on_backing (get_project_settings b proj entry) ss))"
  by (induction backends) (auto split: if_splits)

lemma reads_without_primary:
  "find primary backends = None \<Longrightarrow>
   snd (project_get_image_asset backends proj asset_id use ss) = ss
   \<and> snd (project_get_video_asset backends proj asset_id use ss) = ss
   \<and> snd (project_get_settings backends proj ss) = ss"
  by (induction backends) (auto split: if_splits)

text \<open>
  C7 (read exclusivity). Whatever backends are registered, \<^verbatim>\<open>get_image_asset\<close>
  and \<^verbatim>\<open>get_video_asset\<close> of a project are exactly one call of the same
  operation of the first backend flagged primary, and \<^verbatim>\<open>get_settings\<close> is one
  call of its \<^verbatim>\<open>get_project_settings\<close> with the index's
  \<open>project_file_id\<close> entry (a \<^verbatim>\<open>KeyError\<close>, and no call, when the index has
  none). The result and the whole state afterwards are those of that single call, for
  arbitrary implementations of the other backends: no other backend is invoked.
\<close>

theorem read_exclusivity:
  assumes "primary_backend backends = Some b"
  shows "project_get_image_asset backends proj asset_id use ss
           = on_backing (get_image_asset b proj asset_id use) ss
       \<and> project_get_video_asset backends proj asset_id use ss
           = on_backing (get_video_asset b proj asset_id use) ss
       \<and> project_get_settings backends proj ss
           = (case metadata_index ss (proj_id proj) of
                None \<Rightarrow> (Inl (KeyError (proj_id proj)), ss)
              | Some sub \<Rightarrow>
                  (case sub (Some ''project_file_id'') of
                     None \<Rightarrow> (Inl (KeyError ''project_file_id''), ss)
                   | Some entry \<Rightarrow> on_backing (get_project_settings b proj entry) ss))"
  using assms
  by (simp add: primary_backend_def read_image_primary read_video_primary read_settings_primary)

lemma remote_get:
  "asset_get_image_asset (default_context asset_stub) proj1 ''img-7'' ASSET_USE_PROJECT store0
     = (Inr ''PNG'',
        store0\<lparr>remote := \<lparr>server = 1,
           events = [Call (Request (asset_request (default_context asset_stub)
                       (ArtifactPrompt False
                          (empty_artifact\<lparr>art_type := ARTIFACT_IMAGE, art_mime := ''image/png'',
                                            art_uuid := ''img-7''\<rparr>))
                       ASSET_GET ''proj-1'' ASSET_USE_PROJECT))
                     (Inr stored_answer)]\<rparr>\<rparr>)"
  by (simp add: asset_get_image_asset_def asset_call_def asset_run asset_request_def
        asset_engine stored_answer_decoded store0_def fresh_remote_def proj1_def)

theorem read_exclusivity_witness:
  "fst (project_get_image_asset
          [LocalFileBackend False True ''projects'',
           AssetServiceBackend (default_context asset_stub) True]
          proj1 ''img-7'' ASSET_USE_PROJECT session0)
     = Inr ''PNG''
   \<and> project_get_video_asset
          [LocalFileBackend False True ''projects'',
           AssetServiceBackend (default_context asset_stub) True]
          proj1 ''clip-3'' ASSET_USE_INPUT session0
     = on_backing (asset_get_video_asset (default_context asset_stub) proj1 ''clip-3''
                     ASSET_USE_INPUT) session0
   \<and> project_get_settings
          [LocalFileBackend False True ''projects'',
           AssetServiceBackend (default_context asset_stub) True]
          proj1 session0
     = (Inl (KeyError ''proj-1''), session0)"
proof -
  let ?p = "AssetServiceBackend (default_context asset_stub) True"
  let ?m = "LocalFileBackend False True ''projects'' :: nat store storage_backend"
  have first: "primary_backend [?m, ?p] = Some ?p"
    by (simp add: primary_backend_def AssetServiceBackend_def LocalFileBackend_def)
  have ops: "get_image_asset ?p = asset_get_image_asset (default_context asset_stub)"
    "get_video_asset ?p = asset_get_video_asset (default_context asset_stub)"
    by (simp_all add: AssetServiceBackend_def)
  have idx: "metadata_index session0 ''proj-1'' = None" "proj_id proj1 = ''proj-1''"
    "backing session0 = store0"
    by (simp_all add: session0_def proj1_def)
  note r1 = read_exclusivity [OF first, of proj1 "''img-7''" ASSET_USE_PROJECT session0,
              unfolded ops]
  note r2 = read_exclusivity [OF first, of proj1 "''clip-3''" ASSET_USE_INPUT session0,
              unfolded ops]
  have g1: "fst (project_get_image_asset [?m, ?p] proj1 ''img-7'' ASSET_USE_PROJECT session0)
              = Inr ''PNG''"
    unfolding r1 [THEN conjunct1] by (simp add: on_backing_def idx remote_get)
  have g2: "project_get_video_asset [?m, ?p] proj1 ''clip-3'' ASSET_USE_INPUT session0
              = on_backing (asset_get_video_asset (default_context asset_stub) proj1 ''clip-3''
                              ASSET_USE_INPUT) session0"
    by (rule r2 [THEN conjunct2, THEN conjunct1])
  have g3: "project_get_settings [?m, ?p] proj1 session0 = (Inl (KeyError ''proj-1''), session0)"
    unfolding r1 [THEN conjunct2, THEN conjunct2] by (simp add: idx)
  show ?thesis by (intro conjI g1 g2 g3)
qed

text \<open>
  C8 (local write without an id). Called with no asset id, the local backend's two asset
  writes fail with a \<^verbatim>\<open>ValueError\<close> and change nothing when the backend is not
  primary. When it is primary they draw a uuid, write the picture to
  \<open>root/project/uuid.png\<close> (the video to \<open>root/project/uuid\<close>) and return the uuid,
  provided the operating system accepts the write and, for a video, the source path is an
  existing \<open>.mp4\<close> file.
\<close>

theorem local_write_without_id:
  "(\<not> is_primary \<longrightarrow>
      local_put_image_asset is_primary projects_root proj img use None st
        = (Inl (ValueError ''If asset_id is None, then LocalFileBackend must be primary.''), st)
      \<and> (\<exists>msg. local_put_video_asset is_primary projects_root proj video_path None st
                 = (Inl (ValueError msg), st)))
   \<and> (is_primary \<and> get_path_for_asset projects_root (proj_id proj) (uuid_source st (uuid_drawn st)) @ ''.png''
                      \<notin> unwritable st \<longrightarrow>
      local_put_image_asset is_primary projects_root proj img use None st
        = (Inr (uuid_source st (uuid_drawn st)),
           st\<lparr>uuid_drawn := Suc (uuid_drawn st),
              files := (get_path_for_asset projects_root (proj_id proj) (uuid_source st (uuid_drawn st)) @ ''.png'',
                        image_to_png_bytes img)
                       # filter (\<lambda>(q, d). q \<noteq> get_path_for_asset projects_root (proj_id proj)
                                                  (uuid_source st (uuid_drawn st)) @ ''.png'')
                           (files st)\<rparr>))
   \<and> (is_primary \<and> map_of (files st) video_path = Some data \<and> endswith video_path ''.mp4''
        \<and> get_path_for_asset projects_root (proj_id proj) (uuid_source st (uuid_drawn st)) \<notin> unwritable st \<longrightarrow>
      local_put_video_asset is_primary projects_root proj video_path None st
        = (Inr (uuid_source st (uuid_drawn st)),
           st\<lparr>uuid_drawn := Suc (uuid_drawn st),
              files := (get_path_for_asset projects_root (proj_id proj) (uuid_source st (uuid_drawn st)), data)
                       # filter (\<lambda>(q, d). q \<noteq> get_path_for_asset projects_root (proj_id proj)
                                                  (uuid_source st (uuid_drawn st)))
                           (files st)\<rparr>))"
  by (auto simp: local_put_image_asset_def local_put_video_asset_def choose_filename_def
        uuid4_def write_file_def read_file_def isfile_def Let_def)

theorem local_write_without_id_witness:
  "local_put_image_asset False ''projects'' proj1 ''PNG'' ASSET_USE_PROJECT None store0
     = (Inl (ValueError ''If asset_id is None, then LocalFileBackend must be primary.''), store0)
   \<and> local_put_image_asset True ''projects'' proj1 ''PNG'' ASSET_USE_PROJECT None store0
     = (Inr ''u'', store0\<lparr>uuid_drawn := 1, files := [(''projects/proj-1/u.png'', ''PNG'')]\<rparr>)
   \<and> local_put_video_asset True ''projects'' proj1 ''clip.mp4'' None video_store
     = (Inr ''u'',
        video_store\<lparr>uuid_drawn := 1,
                    files := [(''projects/proj-1/u'', ''MP4''), (''clip.mp4'', ''MP4'')]\<rparr>)"
  using local_write_without_id [of False "''projects''" proj1 "''PNG''" ASSET_USE_PROJECT store0
          "''clip.mp4''" "''MP4''"]
    local_write_without_id [of True "''projects''" proj1 "''PNG''" ASSET_USE_PROJECT store0
          "''clip.mp4''" "''MP4''"]
    local_write_without_id [of True "''projects''" proj1 "''PNG''" ASSET_USE_PROJECT video_store
          "''clip.mp4''" "''MP4''"]
  by (simp add: store0_def video_store_def proj1_def get_path_for_asset_def path_join_def
        image_to_png_bytes_def endswith_def)

lemma delete_project_metadata_file:
  "index_file (delete_project_metadata pid ss) = index_file ss"
  by (simp add: delete_project_metadata_def)

text \<open>
  C9 (index persistence). \<^verbatim>\<open>add_asset_metadata\<close> rewrites the index file
  (\<open>add_asset_metadata_saved\<close>); \<^verbatim>\<open>delete_project_metadata\<close> does not.
  When every backend deletes the project, \<^verbatim>\<open>Project.delete\<close> drops the project
  from the in-memory index and leaves the index file as it was, so a file that held the
  project's entries still holds them.
\<close>

theorem delete_keeps_index_file:
  assumes "delete_everywhere backends (proj_id proj) (backing ss) = (Inr (), w1)"
  shows "project_delete backends proj ss
           = (Inr (), ss\<lparr>backing := w1,
                         metadata_index := (metadata_index ss)(proj_id proj := None)\<rparr>)
       \<and> metadata_index (snd (project_delete backends proj ss)) (proj_id proj) = None
       \<and> index_file (snd (project_delete backends proj ss)) = index_file ss"
  using assms by (simp add: project_delete_def delete_project_metadata_def)

lemma created_index:
  "metadata_index created_session ''proj-1'' =
     Some ((Map.empty(Some ''file-1'' \<mapsto>
              AssetEntry \<lparr>mime_type = ''application/json'',
                          filename = Some ''project_settings.json''\<rparr>))
             (Some ''project_file_id'' \<mapsto> KeyEntry (Some ''file-1'')))"
  "index_file created_session = Some (metadata_index created_session)"
  by (simp_all add: created_session_def add_asset_metadata_def save_metadata_index_def
        session0_def Let_def)

lemma created_deleted:
  "delete_everywhere (init_backends project_context) (proj_id proj1) (backing created_session)
     = (Inr (),
        store0\<lparr>remote := \<lparr>server = 1, events = [ProjectDelete ''proj-1'' (Inr ())]\<rparr>,
               files := []\<rparr>)"
  by (simp add: init_backends_def AssetServiceBackend_def LocalFileBackend_def
        asset_delete_project_def local_delete_project_def project_context_def
        default_context_def created_session_def add_asset_metadata_def
        save_metadata_index_def session0_def store0_def fresh_remote_def proj1_def
        path_join_def under_def Let_def)

theorem delete_keeps_index_file_witness:
  "fst (project_delete (init_backends project_context) proj1 created_session) = Inr ()
   \<and> files (backing (snd (project_delete (init_backends project_context) proj1 created_session)))
       = []
   \<and> metadata_index (snd (project_delete (init_backends project_context) proj1 created_session))
       ''proj-1'' = None
   \<and> index_file (snd (project_delete (init_backends project_context) proj1 created_session))
       = Some (metadata_index created_session)
   \<and> metadata_index created_session ''proj-1'' \<noteq> None"
  using delete_keeps_index_file [OF created_deleted]
  by (simp add: created_index proj1_def)

section \<open>Properties of the transform operations\<close>

lemma stored_run:
  assumes "max_retries c = 5" and "ep_stub ep = asset_stub" and "addressed ep rq"
  shows "run_request c ep rq r
           = (Inr (process_response stored_answer), rq,
              r\<lparr>server := Suc (server r), events := events r @ [Call rq (Inr stored_answer)]\<rparr>)"
proof -
  have rng: "py_range (max_retries c + 1) = [0, 1, 2, 3, 4, 5]"
    by (simp add: assms(1) py_range_def eval_nat_numeral)
  have once: "attempt_once ep rq r
                = (Done (process_response stored_answer),
                   r\<lparr>server := Suc (server r),
                     events := events r @ [Call rq (Inr stored_answer)]\<rparr>)"
    using assms(2,3)
    by (cases rq)
       (simp_all add: attempt_once_def dispatch_def addressed_def asset_stub_def
          stored_answer_decoded)
  show ?thesis unfolding run_request_def rng by (simp add: once)
qed

lemma transform_endpoint_facts:
  "ep_stub (transform_endpoint (debug_context st)) = st"
  "ep_engine_id (transform_endpoint c) = ''transform-server-v1''"
  "max_retries (debug_context st) = 5"
  "debug_no_chains (debug_context st)"
  "\<not> debug_no_chains (default_context st)"
  by (simp_all add: transform_endpoint_def default_context_def debug_context_def)

lemma stored_transform_results:
  "transform_results (process_response stored_answer) = ([Picture ''PNG''], None)"
  by (simp add: transform_results_def process_response_def stored_answer_def add_artifact_def
        empty_artifact_def)

lemma debug_run:
  "transform (debug_context asset_stub) [Picture ''PNG''] two_steps None fresh_remote
     = (Inr ([Picture ''PNG''], None),
        \<lparr>server = 2,
         events =
           [Call (Request \<lparr>engine_id = ''transform-server-v1'', requested_type = None,
                           prompts = [png_prompt], image = None,
                           transform = Some (ColorAdjust 0), asset = None, extras = None\<rparr>)
              (Inr stored_answer),
            Call (Request \<lparr>engine_id = ''transform-server-v1'', requested_type = None,
                           prompts = [png_prompt], image = None,
                           transform = Some (Resample 0), asset = None, extras = None\<rparr>)
              (Inr stored_answer)]\<rparr>)"
  by (simp add: transform_def two_steps_def images_asserted_def transform_single_def
        image_prompt_def stored_run transform_endpoint_facts addressed_def
        stored_transform_results fresh_remote_def png_prompt_def)

text \<open>
  C10 (chain and debug paths). With two or more parameters and chains enabled,
  \<^verbatim>\<open>transform\<close> never sends anything: whatever the images and the extras, it ends
  in an exception with the remote side untouched, and on well-formed images without
  extras the exception is the \<^verbatim>\<open>ValueError\<close> of the request constructor, which is
  given the keyword \<^verbatim>\<open>extras_struct\<close>. The debug path of the same call builds its
  requests with \<^verbatim>\<open>extras\<close>, runs the stages one by one and returns the last
  stage's artifacts, so the two paths do not yield the same final artifacts.
\<close>

theorem chain_transform_never_sent:
  assumes "\<not> debug_no_chains c"
  shows "(\<exists>e. transform c images (Many (p # q # rest)) xs w = (Inl e, w))
       \<and> (images_asserted images \<and> image_prompts images = Inr ps \<longrightarrow>
            transform c images (Many (p # q # rest)) None w
              = (Inl (ValueError ''Protocol message Request has no extras_struct field''), w))"
  using assms by (simp add: transform_def split: sum.splits)

theorem chain_transform_never_sent_witness:
  "transform (default_context asset_stub) [Picture ''PNG''] two_steps None fresh_remote
     = (Inl (ValueError ''Protocol message Request has no extras_struct field''), fresh_remote)
   \<and> transform (debug_context asset_stub) [Picture ''PNG''] two_steps None fresh_remote
     = (Inr ([Picture ''PNG''], None),
        \<lparr>server = 2,
         events =
           [Call (Request \<lparr>engine_id = ''transform-server-v1'', requested_type = None,
                           prompts = [png_prompt], image = None,
                           transform = Some (ColorAdjust 0), asset = None, extras = None\<rparr>)
              (Inr stored_answer),
            Call (Request \<lparr>engine_id = ''transform-server-v1'', requested_type = None,
                           prompts = [png_prompt], image = None,
                           transform = Some (Resample 0), asset = None, extras = None\<rparr>)
              (Inr stored_answer)]\<rparr>)"
proof -
  have asserted: "images_asserted [Picture ''PNG'']"
    "image_prompts [Picture ''PNG''] = Inr [png_prompt]"
    by (simp_all add: images_asserted_def image_prompt_def png_prompt_def)
  have mode: "\<not> debug_no_chains (default_context asset_stub)"
    by (rule transform_endpoint_facts)
  from chain_transform_never_sent[OF mode,
         where images = "[Picture ''PNG'']" and p = "ColorAdjust 0" and q = "Resample 0"
           and rest = "[]" and w = fresh_remote and ps = "[png_prompt]"]
    asserted
  have "transform (default_context asset_stub) [Picture ''PNG''] two_steps None fresh_remote
     = (Inl (ValueError ''Protocol message Request has no extras_struct field''), fresh_remote)"
    unfolding two_steps_def by blast
  then show ?thesis using debug_run by (intro conjI)
qed

end
